theory Spec2Isabelle
  imports Main
begin

section \<open>The orchestrator of src/background.ts\<close>

text \<open>
  The service worker keeps one global task (\<open>currentTask\<close>), one pending credential slot
  (\<open>pendingCredentialValue\<close>) and the extension's local storage. Every handler is a
  function from the world before to the world after, together with the orchestrator events
  the handler dispatches next, in call order. Calls that leave the worker (the model roles
  behind \<open>geminiCall\<close>, the browser API, the vault module) are answered by an \<open>ext\<close>
  record that is an argument of every handler, so every theorem holds for every answer.
\<close>

subsection \<open>Strings as JavaScript uses them\<close>

definition truthy :: "string option \<Rightarrow> bool" where
  \<comment> \<open>a string-valued property in a condition: defined and not empty\<close>
  "truthy s = (case s of None \<Rightarrow> False | Some v \<Rightarrow> v \<noteq> [])"

definition orUndefined :: "string option \<Rightarrow> string" where
  \<comment> \<open>a possibly missing property inside a template literal\<close>
  "orUndefined s = (case s of None \<Rightarrow> ''undefined'' | Some v \<Rightarrow> v)"

fun startsWith :: "string \<Rightarrow> string \<Rightarrow> bool" where
  "startsWith s [] = True"
| "startsWith [] (p # ps) = False"
| "startsWith (c # cs) (p # ps) = (c = p \<and> startsWith cs ps)"

fun includesStr :: "string \<Rightarrow> string \<Rightarrow> bool" where
  "includesStr [] p = (p = [])"
| "includesStr (c # cs) p = (startsWith (c # cs) p \<or> includesStr cs p)"

definition toLowerChar :: "char \<Rightarrow> char" where
  "toLowerChar c = (case map_of (zip ''ABCDEFGHIJKLMNOPQRSTUVWXYZ'' ''abcdefghijklmnopqrstuvwxyz'') c of
       Some l \<Rightarrow> l | None \<Rightarrow> c)"

definition toLowerCase :: "string \<Rightarrow> string" where
  "toLowerCase s = map toLowerChar s"

definition isSpace :: "char \<Rightarrow> bool" where
  \<comment> \<open>the white space and line terminators that \<open>String.prototype.trim\<close> strips, among the
      code points 0 to 255 that a \<open>char\<close> can hold: TAB, LF, VT, FF, CR, SP and NBSP (U+00A0).
      The others (U+1680, U+2000 to U+200A, U+2028, U+2029, U+202F, U+205F, U+3000, U+FEFF) lie
      above 255; a string of this model has no such character.\<close>
  "isSpace c = ((of_char c :: nat) \<in> {9, 10, 11, 12, 13, 32, 160})"

definition isBlank :: "string \<Rightarrow> bool" where
  \<comment> \<open>\<open>!goal || goal.trim() === ''\<close>\<close>
  "isBlank s = (\<forall>c \<in> set s. isSpace c)"

fun join :: "string \<Rightarrow> string list \<Rightarrow> string" where
  "join sep [] = []"
| "join sep [s] = s"
| "join sep (s # t # ts) = s @ sep @ join sep (t # ts)"

definition digitChar :: "nat \<Rightarrow> char" where
  "digitChar d = char_of (48 + d)"

fun natDigits :: "nat \<Rightarrow> nat \<Rightarrow> string" where
  \<comment> \<open>decimal digits, most significant first; the first argument bounds the number of digits\<close>
  "natDigits 0 n = []"
| "natDigits (Suc k) n = (if n < 10 then [digitChar n] else natDigits k (n div 10) @ [digitChar (n mod 10)])"

definition showNat :: "nat \<Rightarrow> string" where
  "showNat n = natDigits (Suc n) n"

subsection \<open>Data model (src/types.ts)\<close>

datatype TaskStatus =
    RESEARCHING | PLANNING | THINKING | VERIFYING | EXECUTING | WAITING
  | COMPLETED | FAILED | STOPPED | REPLANNING | USER_INPUT_PENDING | TEACHING
  | AWAITING_CREDENTIAL_NAME | AWAITING_PASSPHRASE

datatype Action =
    CLICK | TYPE_TEXT | GOTO | SUBMIT | ANSWER | FAIL | READ | OPEN_TAB | SEARCH | WAIT
  | LONG_WAIT | CHANGE_TAB | HELP_REPLAN | SCROLL_DOWN | PRESS_ESCAPE | EXTRACT_TEXT
  | SEARCH_PAGE | PARTIAL_SUCCESS | SAVE_CREDENTIAL_VALUE | FULL_PAGE_SEARCH
  | OTHER_ACTION string

fun actionName :: "Action \<Rightarrow> string" where
  "actionName CLICK = ''CLICK''"
| "actionName TYPE_TEXT = ''TYPE''"
| "actionName GOTO = ''GOTO''"
| "actionName SUBMIT = ''SUBMIT''"
| "actionName ANSWER = ''ANSWER''"
| "actionName FAIL = ''FAIL''"
| "actionName READ = ''READ''"
| "actionName OPEN_TAB = ''OPEN_TAB''"
| "actionName SEARCH = ''SEARCH''"
| "actionName WAIT = ''WAIT''"
| "actionName LONG_WAIT = ''LONG_WAIT''"
| "actionName CHANGE_TAB = ''CHANGE_TAB''"
| "actionName HELP_REPLAN = ''HELP_REPLAN''"
| "actionName SCROLL_DOWN = ''SCROLL_DOWN''"
| "actionName PRESS_ESCAPE = ''PRESS_ESCAPE''"
| "actionName EXTRACT_TEXT = ''EXTRACT_TEXT''"
| "actionName SEARCH_PAGE = ''SEARCH_PAGE''"
| "actionName PARTIAL_SUCCESS = ''PARTIAL_SUCCESS''"
| "actionName SAVE_CREDENTIAL_VALUE = ''SAVE_CREDENTIAL_VALUE''"
| "actionName FULL_PAGE_SEARCH = ''FULL_PAGE_SEARCH''"
| "actionName (OTHER_ACTION s) = s"

record ManagerDecision =
  md_thought :: "string option"
  md_action :: "Action option"
  md_tabName :: "string option"
  md_selector :: "string option"
  md_text :: "string option"
  md_url :: "string option"
  md_reason :: "string option"
  md_duration :: "nat option"
  md_query :: "string option"
  md_value :: "string option"

record ResearchData =
  rd_question :: string
  rd_answer :: string

record ResearcherDecision =
  res_thought :: string
  res_facts :: "ResearchData list"
  requires_browser :: bool
  requires_vault :: bool

record PlannerDecision =
  pl_thought :: string
  pl_plan :: "string list"

record VerifierDecision =
  is_safe :: bool
  ver_reason :: string

record PresenterDecision =
  summary :: string
  call_to_action :: "string option"

record ExpertPersona =
  persona_name :: string
  persona_title :: string
  persona_text :: string

record Consensus =
  html :: string
  consensus_plan :: "string list"

record RecordedAction =
  ra_action :: string
  ra_selector :: "string option"
  ra_text :: "string option"

record HistoricalTask =
  h_goal :: string
  h_timestamp :: nat

record CompletedTask =
  c_goal :: string
  c_answer :: string
  c_timestamp :: nat

record AgentState =
  ref :: nat
  taskId :: string
  originalGoal :: string
  status :: TaskStatus
  plan :: "string list"
  currentStep :: nat
  stepFailureCount :: nat
  turn :: nat
  scratchpad :: "string list"
  createdAt :: nat
  researchData :: "ResearchData list"
  researcherDecision :: "ResearcherDecision option"
  finalAnswer :: "string option"
  failureReason :: "string option"
  lastFailedAction :: "ManagerDecision option"
  websiteFailures :: "string \<Rightarrow> nat option"
  tabs :: "(string \<times> nat) list"
  activeTabName :: string
  isTraining :: bool
  isPartialSuccess :: bool
  recordedActions :: "RecordedAction list"
  waitTimeoutId :: "nat option"
  isDeliberatePlan :: bool
  initialStrategy :: "string option"

text \<open>
  \<open>ref\<close> is not a field of the source: it stands for the identity of the JavaScript object,
  which \<open>handleStopTeaching\<close> compares with \<open>currentTask !== task\<close>. Every object literal
  assigned to \<open>currentTask\<close> gets a fresh one.
\<close>

datatype event =
    START_TASK string
  | STOP_TASK
  | RESET_TASK_SESSION
  | TAKE_OVER
  | GO_AUTONOMOUS
  | RECORDED_ACTION RecordedAction
  | RUN_NEXT_TURN
  | RESEARCH_COMPLETE "ResearcherDecision option"
  | RESEARCH_FAILED
  | PLAN_COMPLETE "PlannerDecision option"
  | PLAN_FAILED
  | ACTION_COMPLETE "ManagerDecision option"
  | ACTION_FAILED "ManagerDecision option"
  | REPLAN_COMPLETE "PlannerDecision option"
  | REPLAN_FAILED
  | TEXT_EXTRACTED "string option"
  | START_TEACHING string
  | STOP_TEACHING
  | UNLOCK_VAULT string
  | GET_HISTORICAL_TASKS
  | HISTORICAL_TASKS_UPDATE
  | ATTEMPT_STRATEGY "string list"
  | DELETE_HISTORICAL_TASK nat
  | SAVE_CREDENTIAL string

datatype message =
    TASK_UPDATE AgentState
  | HISTORICAL_UPDATE "HistoricalTask list"

record world =
  currentTask :: "AgentState option"
  pendingCredentialValue :: "string option"
  historicalTasks :: "HistoricalTask list"
  completedTasks :: "CompletedTask list"
  learnedTools :: "(string \<times> string \<times> RecordedAction list) list"
  vaultRequests :: "(string \<times> string) list"
  timers :: "nat list"
  nextTimer :: nat
  nextRef :: nat
  sent :: "message list"

text \<open>
  \<open>historicalTasks\<close>, \<open>completedTasks\<close> and \<open>learnedTools\<close> are the three keys of
  \<open>chrome.storage.local\<close> the worker writes. The vault module is imported from
  \<open>./vault\<close>; \<open>vaultRequests\<close> lists the (name, value) pairs the worker has handed to its
  \<open>encryptAndSaveCredential\<close>. \<open>timers\<close> are the handles of the \<open>setTimeout\<close> calls of
  \<open>LONG_WAIT\<close> that have neither fired nor been cleared. \<open>sent\<close> lists the messages
  broadcast with \<open>chrome.runtime.sendMessage\<close>. \<open>nextTimer\<close> and \<open>nextRef\<close> number the
  timer handles and the task objects.
\<close>

subsection \<open>What the worker asks of its environment\<close>

datatype Flow = Standard_Flow | Deliberate_Flow

record Snapshot =
  snap_url :: string
  snap_title :: string

record ReplanContext =
  failedPlan :: "string list"
  failingStep :: nat
  history :: "string list"
  isUserInitiated :: bool
  rc_websiteFailures :: "string \<Rightarrow> nat option"

datatype planner_prompt =
    ContinuePrompt string "string list" nat "string list"
  | FailedPlanPrompt string "ResearchData list" "string list" nat "string list" "string \<Rightarrow> nat option"
  | FirstPlanPrompt string bool "ResearchData list"

text \<open>
  The three prompts of \<open>getPlannerDecision\<close>, each with the task data its template
  interpolates: the prompt after a user hand-back (goal, failed plan, failing step,
  history), the prompt after a failed plan (the same with the research data and the
  \<open>Website Failure Counts\<close>, and with the text of the "Three-Strikes" rule), and the first
  prompt (goal, \<open>isDeliberatePlan\<close>, research data). The preflight checklist and the
  similar completed tasks, which every prompt also carries, are left to the answer.
\<close>

record ext =
  now :: nat
  stringifyFacts :: "ResearchData list \<Rightarrow> string"
  showSeconds :: "nat \<Rightarrow> string"
  hostnameOf :: "string \<Rightarrow> string"
  tabUrl :: "nat \<Rightarrow> string option"
  activeTab :: "(nat \<times> string option) option"
  newTaskUrl :: string
  isVaultUnlocked :: bool
  unlockVault :: "string \<Rightarrow> bool"
  encryptAndSaveCredential :: "string \<Rightarrow> string \<Rightarrow> string + string"
  triageCall :: "string + Flow"
  location :: string
  researcherCall :: "string + ResearcherDecision"
  plannerCall :: "planner_prompt \<Rightarrow> PlannerDecision option"
  presenterCall :: "PresenterDecision option"
  managerCall :: "ManagerDecision option"
  verifierCall :: "string \<Rightarrow> string + VerifierDecision option"
  teacherCall :: "string option"
  createdTab :: "nat option"
  observation :: "string + Snapshot"
  executeReply :: "string + string"
  openedTab :: "nat option"
  personasCall :: "string + ExpertPersona list"
  debateCall :: "string option"
  consensusCall :: "string + Consensus"

text \<open>
  One \<open>ext\<close> answers the calls of one handler run. \<open>now\<close> is \<open>Date.now()\<close>;
  \<open>stringifyFacts\<close> and \<open>showSeconds\<close> are \<open>JSON.stringify\<close> of the facts and the
  printing of \<open>waitDuration / 1000\<close>; \<open>hostnameOf u\<close> is \<open>new URL(u).hostname\<close>;
  \<open>tabUrl i\<close> is the url of \<open>chrome.tabs.get(i)\<close> (\<open>None\<close>: no such tab, or no url);
  \<open>activeTab\<close> is the first tab of \<open>chrome.tabs.query({active, currentWindow})\<close>;
  \<open>createdTab\<close> the id of the tab \<open>chrome.tabs.create\<close> returns; \<open>openedTab\<close> the tab
  that exists after a click and did not before. The \<open>...Call\<close> fields are the outcomes of
  \<open>geminiCall\<close> for each role: \<open>Inl\<close> (or \<open>None\<close>, where the role maps every error to
  \<open>null\<close>) when it throws. \<open>observation\<close> is the page snapshot, or the error of
  \<open>observeCurrentState\<close> or of its two-minute timeout. \<open>executeReply\<close> is the content
  script's reply to \<open>EXECUTE_ACTION\<close>: the error, or the extracted text. \<open>debateCall\<close> is
  the error of a persona's table or revision call, if it throws.
\<close>

datatype delib_stage = AWAIT_PERSONAS | AWAIT_TABLE nat | AWAIT_REVISED nat | AWAIT_CONSENSUS

record delib =
  dl_goal :: string
  dl_stage :: delib_stage
  dl_personas :: "ExpertPersona list"

datatype job =
    EVENT event
  | START_TASK_RESUME string
  | DELIBERATE delib
  | STOP_TEACHING_SUMMARIZED nat
  | STOP_TEACHING_SAVED nat
  | WAIT_TIMEOUT nat

text \<open>
  A job is a piece of code the JavaScript event loop runs without interruption by another
  handler of this file: a call of \<open>agentOrchestrator\<close>, or the rest of an async function
  after one of its awaits. The bodies are cut at the awaits after which the source looks
  at \<open>currentTask\<close> again before going on (\<open>runDeliberateFlow\<close>, \<open>handleStopTeaching\<close>, the
  \<open>setTimeout\<close> callback of \<open>LONG_WAIT\<close>) and at the first await of \<open>handleStartTask\<close>
  after the new task is created. The two \<open>STOP_TEACHING\<close> jobs carry the local constant
  \<open>task\<close> (its identity); a \<open>DELIBERATE\<close> job carries the locals \<open>goal\<close> and
  \<open>personas\<close> and the await it resumes from. Elsewhere a
  handler runs to its next dispatch in one piece, as section 4.1 of the specification
  describes the store. A dispatch is returned as the next job rather than run in place.
\<close>


subsection \<open>Status, scratchpad and notification (lines 2012-2036)\<close>

definition withTask :: "(AgentState \<Rightarrow> AgentState) \<Rightarrow> world \<Rightarrow> world" where
  \<comment> \<open>assignments to fields of \<open>currentTask\<close>, which the source makes where a task is set\<close>
  "withTask f w = (case currentTask w of None \<Rightarrow> w | Some t \<Rightarrow> w\<lparr>currentTask := Some (f t)\<rparr>)"

definition statusIs :: "TaskStatus \<Rightarrow> world \<Rightarrow> bool" where
  \<comment> \<open>\<open>currentTask && currentTask.status === st\<close>\<close>
  "statusIs st w = (case currentTask w of None \<Rightarrow> False | Some t \<Rightarrow> status t = st)"

definition updateUI :: "world \<Rightarrow> world" where
  "updateUI w = (case currentTask w of None \<Rightarrow> w
     | Some t \<Rightarrow> w\<lparr>sent := sent w @ [TASK_UPDATE t]\<rparr>)"

definition addToScratchpad :: "string \<Rightarrow> world \<Rightarrow> world" where
  "addToScratchpad log w = updateUI (withTask (\<lambda>t. t\<lparr>scratchpad := scratchpad t @ [log]\<rparr>) w)"

definition noteWith :: "(AgentState \<Rightarrow> string) \<Rightarrow> world \<Rightarrow> world" where
  \<comment> \<open>\<open>addToScratchpad\<close> of a template that reads fields of \<open>currentTask\<close>\<close>
  "noteWith line w = (case currentTask w of None \<Rightarrow> w | Some t \<Rightarrow> addToScratchpad (line t) w)"

definition updateTaskStatus :: "TaskStatus \<Rightarrow> string option \<Rightarrow> world \<Rightarrow> world" where
  "updateTaskStatus st reason w =
     updateUI (if truthy reason
               then addToScratchpad (''Error: '' @ the reason)
                      (withTask (\<lambda>t. t\<lparr>status := st, failureReason := reason\<rparr>) w)
               else withTask (\<lambda>t. t\<lparr>status := st\<rparr>) w)"

subsection \<open>Persisted history (lines 2249-2305)\<close>

definition saveHistoricalTask :: "ext \<Rightarrow> string \<Rightarrow> world \<Rightarrow> world" where
  "saveHistoricalTask x goal w =
     (if isBlank goal then w
      else if (\<exists>task \<in> set (historicalTasks w). h_goal task = goal) then w
      else let updatedTasks = take 10 (\<lparr>h_goal = goal, h_timestamp = now x\<rparr> # historicalTasks w)
           in w\<lparr>historicalTasks := updatedTasks, sent := sent w @ [HISTORICAL_UPDATE updatedTasks]\<rparr>)"

definition saveCompletedTask :: "ext \<Rightarrow> world \<Rightarrow> world" where
  "saveCompletedTask x w = (case currentTask w of None \<Rightarrow> w
     | Some t \<Rightarrow>
        if \<not> truthy (finalAnswer t) then w
        else saveHistoricalTask x (originalGoal t)
               (w\<lparr>completedTasks := take 50
                    (\<lparr>c_goal = originalGoal t, c_answer = the (finalAnswer t), c_timestamp = now x\<rparr>
                       # completedTasks w)\<rparr>))"

definition handleDeleteHistoricalTask :: "nat \<Rightarrow> world \<Rightarrow> world" where
  "handleDeleteHistoricalTask ts w =
     (let updatedTasks = filter (\<lambda>task. h_timestamp task \<noteq> ts) (historicalTasks w)
      in w\<lparr>historicalTasks := updatedTasks, sent := sent w @ [HISTORICAL_UPDATE updatedTasks]\<rparr>)"

subsection \<open>Learned tools (lines 2149-2195)\<close>

fun setTool :: "string \<Rightarrow> string \<Rightarrow> RecordedAction list
    \<Rightarrow> (string \<times> string \<times> RecordedAction list) list \<Rightarrow> (string \<times> string \<times> RecordedAction list) list" where
  "setTool h d acts [] = [(h, d, acts)]"
| "setTool h d acts ((h', d', a') # rest) =
     (if h' = h \<and> d' = d then (h, d, acts) # rest else (h', d', a') # setTool h d acts rest)"

fun getTool :: "string \<Rightarrow> string \<Rightarrow> (string \<times> string \<times> RecordedAction list) list \<Rightarrow> RecordedAction list" where
  "getTool h d [] = []"
| "getTool h d ((h', d', a') # rest) = (if h' = h \<and> d' = d then a' else getTool h d rest)"

definition isWebsite :: "string option \<Rightarrow> bool" where
  \<comment> \<open>\<open>tab.url && tab.url.startsWith('http')\<close>\<close>
  "isWebsite u = (case u of None \<Rightarrow> False | Some v \<Rightarrow> v \<noteq> [] \<and> startsWith v ''http'')"

definition saveLearnedTool :: "ext \<Rightarrow> string \<Rightarrow> RecordedAction list \<Rightarrow> world \<Rightarrow> world" where
  "saveLearnedTool x goal actions w =
     (if actions = [] then w
      else case activeTab x of
          None \<Rightarrow> w
        | Some (i, u) \<Rightarrow>
            if \<not> isWebsite u then w
            else w\<lparr>learnedTools := setTool (hostnameOf x (the u)) goal actions (learnedTools w)\<rparr>)"

definition stepDescription :: "AgentState \<Rightarrow> string" where
  \<comment> \<open>\<open>currentTask.plan[currentTask.currentStep] || currentTask.originalGoal\<close>\<close>
  "stepDescription t =
     (if currentStep t < length (plan t) \<and> plan t ! currentStep t \<noteq> []
      then plan t ! currentStep t else originalGoal t)"

definition activeTabUrl :: "ext \<Rightarrow> AgentState \<Rightarrow> string option" where
  \<comment> \<open>the url of \<open>chrome.tabs.get(currentTask.tabs[currentTask.activeTabName])\<close>\<close>
  "activeTabUrl x t = (case map_of (tabs t) (activeTabName t) of None \<Rightarrow> None | Some i \<Rightarrow> tabUrl x i)"

definition saveLearnedAction :: "ext \<Rightarrow> RecordedAction \<Rightarrow> world \<Rightarrow> world" where
  "saveLearnedAction x payload w = (case currentTask w of None \<Rightarrow> w
     | Some t \<Rightarrow>
        if \<not> isWebsite (activeTabUrl x t) then w
        else let hostname = hostnameOf x (the (activeTabUrl x t))
             in w\<lparr>learnedTools :=
                   setTool hostname (stepDescription t)
                     (getTool hostname (stepDescription t) (learnedTools w) @ [payload])
                     (learnedTools w)\<rparr>)"

subsection \<open>The decision roles, as far as the orchestrator sees them\<close>

definition getTriageDecision :: "ext \<Rightarrow> Flow" where
  \<comment> \<open>lines 1293-1299: any error of the call becomes the standard flow\<close>
  "getTriageDecision x = (case triageCall x of Inl e \<Rightarrow> Standard_Flow | Inr f \<Rightarrow> f)"

definition getVerifierDecision :: "ext \<Rightarrow> string \<Rightarrow> VerifierDecision option" where
  \<comment> \<open>lines 1409-1415\<close>
  "getVerifierDecision x url = (case verifierCall x url of
       Inl e \<Rightarrow> Some \<lparr>is_safe = True, ver_reason = ''Verifier agent failed, defaulting to safe.''\<rparr>
     | Inr response \<Rightarrow> response)"

definition getPlannerDecision :: "ext \<Rightarrow> string \<Rightarrow> ResearchData list \<Rightarrow> ReplanContext option
    \<Rightarrow> world \<Rightarrow> PlannerDecision option" where
  \<comment> \<open>lines 1455-1651: which prompt is built, and the answer to it\<close>
  "getPlannerDecision x goal facts replanContext w =
     plannerCall x
       (case replanContext of
          Some rc \<Rightarrow>
            if isUserInitiated rc
            then ContinuePrompt goal (failedPlan rc) (failingStep rc) (history rc)
            else FailedPlanPrompt goal facts (failedPlan rc) (failingStep rc) (history rc)
                   (rc_websiteFailures rc)
        | None \<Rightarrow>
            FirstPlanPrompt goal
              (case currentTask w of None \<Rightarrow> False | Some t \<Rightarrow> isDeliberatePlan t) facts)"

definition getPresenterDecision :: "ext \<Rightarrow> world \<Rightarrow> PresenterDecision option" where
  \<comment> \<open>lines 1782-1857\<close>
  "getPresenterDecision x w = (case currentTask w of None \<Rightarrow> None | Some t \<Rightarrow> presenterCall x)"

subsection \<open>Task creation and disposal (lines 509-540, 813-891)\<close>

fun statusName :: "TaskStatus \<Rightarrow> string" where
  "statusName RESEARCHING = ''RESEARCHING''"
| "statusName PLANNING = ''PLANNING''"
| "statusName THINKING = ''THINKING''"
| "statusName VERIFYING = ''VERIFYING''"
| "statusName EXECUTING = ''EXECUTING''"
| "statusName WAITING = ''WAITING''"
| "statusName COMPLETED = ''COMPLETED''"
| "statusName FAILED = ''FAILED''"
| "statusName STOPPED = ''STOPPED''"
| "statusName REPLANNING = ''REPLANNING''"
| "statusName USER_INPUT_PENDING = ''USER_INPUT_PENDING''"
| "statusName TEACHING = ''TEACHING''"
| "statusName AWAITING_CREDENTIAL_NAME = ''AWAITING_CREDENTIAL_NAME''"
| "statusName AWAITING_PASSPHRASE = ''AWAITING_PASSPHRASE''"

definition newTask :: "nat \<Rightarrow> nat \<Rightarrow> string \<Rightarrow> TaskStatus \<Rightarrow> string \<Rightarrow> bool \<Rightarrow> AgentState" where
  \<comment> \<open>the object literal of \<open>handleStartTask\<close> and \<open>handleStartTeaching\<close>\<close>
  "newTask r t goal st firstLine training =
     \<lparr>ref = r, taskId = ''task-'' @ showNat t, originalGoal = goal, status = st, plan = [],
      currentStep = 0, stepFailureCount = 0, turn = 0, scratchpad = [firstLine], createdAt = t,
      researchData = [], researcherDecision = None, finalAnswer = None, failureReason = None,
      lastFailedAction = None, websiteFailures = Map.empty, tabs = [], activeTabName = ''main'',
      isTraining = training, isPartialSuccess = False, recordedActions = [], waitTimeoutId = None,
      isDeliberatePlan = False, initialStrategy = None\<rparr>"

definition archiveIfPending :: "ext \<Rightarrow> world \<Rightarrow> world" where
  \<comment> \<open>lines 814-816 and 867-869:
      \<open>if (currentTask.status === 'USER_INPUT_PENDING') await saveHistoricalTask(currentTask.originalGoal)\<close>\<close>
  "archiveIfPending x w = (case currentTask w of None \<Rightarrow> w
     | Some t \<Rightarrow> if status t = USER_INPUT_PENDING then saveHistoricalTask x (originalGoal t) w else w)"

definition handleStartTask :: "ext \<Rightarrow> string \<Rightarrow> world \<Rightarrow> world \<times> job list" where
  \<comment> \<open>lines 813-838; the rest of the function is \<open>handleStartTask_resume\<close>\<close>
  "handleStartTask x goal w =
     (let w1 = archiveIfPending x w
      in (updateUI (w1\<lparr>currentTask := Some (newTask (nextRef w1) (now x) goal RESEARCHING
                                                (''Goal: '' @ goal) False),
                        nextRef := Suc (nextRef w1)\<rparr>),
          [START_TASK_RESUME goal]))"

definition clearWaitTimeout :: "world \<Rightarrow> world" where
  \<comment> \<open>\<open>if (currentTask.waitTimeoutId) { clearTimeout(...); currentTask.waitTimeoutId = undefined; }\<close>\<close>
  "clearWaitTimeout w = (case currentTask w of None \<Rightarrow> w
     | Some t \<Rightarrow>
        (case waitTimeoutId t of None \<Rightarrow> w
         | Some h \<Rightarrow> withTask (\<lambda>t. t\<lparr>waitTimeoutId := None\<rparr>) (w\<lparr>timers := removeAll h (timers w)\<rparr>)))"

definition handleStopTask :: "ext \<Rightarrow> world \<Rightarrow> world" where
  "handleStopTask x w =
     (if currentTask w = None then w
      else (updateTaskStatus STOPPED (Some ''You have requested to stop the autonomous goal.'')
              (archiveIfPending x (clearWaitTimeout w)))\<lparr>currentTask := None\<rparr>)"

definition handleResetTaskSession :: "world \<Rightarrow> world" where
  "handleResetTaskSession w =
     (if currentTask w = None then w
      else updateUI ((clearWaitTimeout w)\<lparr>currentTask := None\<rparr>))"

definition handleStartTeaching :: "ext \<Rightarrow> string \<Rightarrow> world \<Rightarrow> world" where
  "handleStartTeaching x goal w =
     (let t = newTask (nextRef w) (now x) goal TEACHING
                (''Teaching session started for: \"'' @ goal @ ''\"'') True;
          t' = (case activeTab x of
                  Some (i, u) \<Rightarrow> if i \<noteq> 0 then t\<lparr>tabs := [(''main'', i)]\<rparr> else t
                | None \<Rightarrow> t)
      in updateUI (w\<lparr>currentTask := Some t', nextRef := Suc (nextRef w)\<rparr>))"

subsection \<open>Replanning (lines 893-941)\<close>

definition lastTen :: "string list \<Rightarrow> string list" where
  \<comment> \<open>\<open>scratchpad.slice(-10)\<close>\<close>
  "lastTen sp = drop (length sp - 10) sp"

definition quoted :: "string \<Rightarrow> string" where
  \<comment> \<open>a value between single quotes in a template literal\<close>
  "quoted s = [CHR 0x27] @ s @ [CHR 0x27]"

definition actionText :: "ManagerDecision \<Rightarrow> string" where
  \<comment> \<open>\<open>${decision.action}\<close>\<close>
  "actionText d = (case md_action d of None \<Rightarrow> ''undefined'' | Some a \<Rightarrow> actionName a)"

definition stuckReason :: "bool \<Rightarrow> AgentState \<Rightarrow> string" where
  \<comment> \<open>lines 913-918\<close>
  "stuckReason userInitiated t =
     (if userInitiated
      then ''User has performed some actions and is handing control back to the agent.''
      else case lastFailedAction t of
         None \<Rightarrow> ''The agent was unable to decide on a next action from the current state.''
       | Some d \<Rightarrow> ''The action '' @ quoted (actionText d) @ '' on selector ''
            @ quoted (orUndefined (md_selector d)) @ '' has failed multiple times.'')"

definition replanContextOf :: "bool \<Rightarrow> AgentState \<Rightarrow> ReplanContext" where
  \<comment> \<open>lines 928-934\<close>
  "replanContextOf userInitiated t =
     \<lparr>failedPlan = plan t, failingStep = currentStep t + 1, history = lastTen (scratchpad t),
      isUserInitiated = userInitiated, rc_websiteFailures = websiteFailures t\<rparr>"

definition requestReplan :: "ext \<Rightarrow> bool \<Rightarrow> world \<Rightarrow> job list" where
  \<comment> \<open>lines 935-940\<close>
  "requestReplan x userInitiated w = (case currentTask w of None \<Rightarrow> []
     | Some t \<Rightarrow>
        (case getPlannerDecision x (originalGoal t) (researchData t)
                (Some (replanContextOf userInitiated t)) w of
           Some newPlanDecision \<Rightarrow> [EVENT (REPLAN_COMPLETE (Some newPlanDecision))]
         | None \<Rightarrow> [EVENT REPLAN_FAILED]))"

definition enterReplanning :: "bool \<Rightarrow> world \<Rightarrow> world" where
  \<comment> \<open>lines 920-921\<close>
  "enterReplanning userInitiated w =
     updateTaskStatus REPLANNING None
       (noteWith (\<lambda>t. ''System Alert: '' @ stuckReason userInitiated t @ '' I must re-plan my approach.'') w)"

definition handleStuckState :: "ext \<Rightarrow> bool \<Rightarrow> world \<Rightarrow> world \<times> job list" where
  "handleStuckState x userInitiated w =
     (enterReplanning userInitiated w, requestReplan x userInitiated (enterReplanning userInitiated w))"

definition handleTakeOver :: "world \<Rightarrow> world" where
  "handleTakeOver w =
     updateTaskStatus USER_INPUT_PENDING (Some ''Waiting for user to demonstrate the next step.'')
       (withTask (\<lambda>t. t\<lparr>isTraining := True\<rparr>) w)"

definition handleGoAutonomous :: "ext \<Rightarrow> world \<Rightarrow> world \<times> job list" where
  "handleGoAutonomous x w =
     handleStuckState x True
       (addToScratchpad (''System: User has clicked '' @ quoted ''Go Autonomous''
            @ ''. Stopping learning mode and triggering a replan.'')
          (withTask (\<lambda>t. t\<lparr>isTraining := False\<rparr>) w))"

subsection \<open>Teaching and recording (lines 573-642)\<close>

definition isDemonstrating :: "world \<Rightarrow> bool" where
  \<comment> \<open>\<open>currentTask.isTraining && currentTask.status === 'USER_INPUT_PENDING'\<close>\<close>
  "isDemonstrating w = (case currentTask w of None \<Rightarrow> False
     | Some t \<Rightarrow> isTraining t \<and> status t = USER_INPUT_PENDING)"

definition stringOr :: "string option \<Rightarrow> string" where
  \<comment> \<open>\<open>value || ''\<close>\<close>
  "stringOr s = (case s of None \<Rightarrow> [] | Some v \<Rightarrow> v)"

definition handleRecordedAction :: "ext \<Rightarrow> RecordedAction \<Rightarrow> world \<Rightarrow> world" where
  "handleRecordedAction x payload w =
     (let w1 = (if isDemonstrating w
                then saveLearnedAction x payload
                       (addToScratchpad (''User demonstrated action: '' @ ra_action payload
                           @ '' on selector '' @ orUndefined (ra_selector payload)) w)
                else w)
      in if statusIs TEACHING w1
         then addToScratchpad (''Action Recorded: '' @ ra_action payload @ '' ''
                  @ stringOr (ra_selector payload) @ '' '' @ stringOr (ra_text payload))
                (withTask (\<lambda>t. t\<lparr>recordedActions := recordedActions t @ [payload]\<rparr>) w1)
         else w1)"

definition handleStopTeaching :: "world \<Rightarrow> world \<times> job list" where
  \<comment> \<open>lines 573-586, up to the await of the Teacher's summary\<close>
  "handleStopTeaching w = (case currentTask w of None \<Rightarrow> (w, [])
     | Some task \<Rightarrow>
        if status task \<noteq> TEACHING then (w, [])
        else (updateUI (addToScratchpad ''Teaching session finished. Now summarizing what was learned.'' w),
              [STOP_TEACHING_SUMMARIZED (ref task)]))"

definition isActive :: "nat \<Rightarrow> world \<Rightarrow> bool" where
  \<comment> \<open>\<open>currentTask === task\<close>, for the task object with identity \<open>r\<close>\<close>
  "isActive r w = (case currentTask w of None \<Rightarrow> False | Some t \<Rightarrow> ref t = r)"

definition teacherSummary :: "ext \<Rightarrow> string" where
  \<comment> \<open>line 595\<close>
  "teacherSummary x = (case teacherCall x of
       Some s \<Rightarrow> s
     | None \<Rightarrow> ''I recorded the steps you took, but I was unable to create a summary.'')"

definition saveTaskAsTool :: "ext \<Rightarrow> world \<Rightarrow> world" where
  \<comment> \<open>\<open>saveLearnedTool(currentTask.originalGoal, currentTask.recordedActions || [])\<close>\<close>
  "saveTaskAsTool x w = (case currentTask w of None \<Rightarrow> w
     | Some t \<Rightarrow> saveLearnedTool x (originalGoal t) (recordedActions t) w)"

definition handleStopTeaching_summarized :: "ext \<Rightarrow> nat \<Rightarrow> world \<Rightarrow> world \<times> job list" where
  \<comment> \<open>lines 588-598\<close>
  "handleStopTeaching_summarized x task w =
     (if \<not> isActive task w then (w, [])
      else (saveTaskAsTool x (withTask (\<lambda>t. t\<lparr>finalAnswer := Some (teacherSummary x)\<rparr>) w),
            [STOP_TEACHING_SAVED task]))"

definition handleStopTeaching_saved :: "ext \<Rightarrow> nat \<Rightarrow> world \<Rightarrow> world \<times> job list" where
  \<comment> \<open>lines 600-606\<close>
  "handleStopTeaching_saved x task w =
     (if \<not> isActive task w then (w, [])
      else (saveCompletedTask x (updateTaskStatus COMPLETED None w), []))"

subsection \<open>Credentials and the vault (lines 542-571, 609-626)\<close>

definition invalidSaveCredential :: "world \<Rightarrow> world" where
  \<comment> \<open>the \<open>else\<close> branch of \<open>handleSaveCredential\<close>\<close>
  "invalidSaveCredential w =
     noteWith (\<lambda>t. ''Warning: Received SAVE_CREDENTIAL event in an invalid state. Current status: ''
                     @ statusName (status t)) w"

definition handleSaveCredential :: "ext \<Rightarrow> string \<Rightarrow> world \<Rightarrow> world \<times> job list" where
  "handleSaveCredential x name w =
     (if statusIs AWAITING_CREDENTIAL_NAME w \<and> truthy (pendingCredentialValue w)
      then (let v = the (pendingCredentialValue w);
                w1 = w\<lparr>vaultRequests := vaultRequests w @ [(name, v)]\<rparr>
            in case encryptAndSaveCredential x name v of
                 Inr placeholder \<Rightarrow>
                   ((addToScratchpad (''User saved a credential named \"'' @ name
                        @ ''\". The agent can now use the placeholder: '' @ placeholder) w1)
                      \<lparr>pendingCredentialValue := None\<rparr>,
                    [EVENT RUN_NEXT_TURN])
               | Inl errorMessage \<Rightarrow>
                   (updateTaskStatus FAILED (Some (''Could not save credential: '' @ errorMessage))
                      (addToScratchpad (''Error saving credential: '' @ errorMessage) w1), []))
      else (invalidSaveCredential w, []))"

definition requestPlan :: "ext \<Rightarrow> world \<Rightarrow> job list" where
  \<comment> \<open>the first planning call and its two outcomes, lines 379-388 and 555-565\<close>
  "requestPlan x w = (case currentTask w of None \<Rightarrow> []
     | Some t \<Rightarrow>
        (case getPlannerDecision x (originalGoal t) (researchData t) None w of
           Some planDecision \<Rightarrow> [EVENT (PLAN_COMPLETE (Some planDecision))]
         | None \<Rightarrow> [EVENT PLAN_FAILED]))"

definition hasResearcherDecision :: "world \<Rightarrow> bool" where
  "hasResearcherDecision w = (case currentTask w of None \<Rightarrow> False | Some t \<Rightarrow> researcherDecision t \<noteq> None)"

definition handleUnlockVault :: "ext \<Rightarrow> string \<Rightarrow> world \<Rightarrow> world \<times> job list" where
  "handleUnlockVault x passphrase w =
     (if currentTask w = None then (w, [])
      else if unlockVault x passphrase
      then (if \<not> hasResearcherDecision w
            then (updateTaskStatus FAILED (Some ''Could not resume task after unlocking vault.'')
                    (addToScratchpad ''Error: Cannot re-run research step. Researcher decision is missing.'' w), [])
            else (let w1 = updateTaskStatus PLANNING None
                             (addToScratchpad ''Vault unlocked successfully. Proceeding to planning phase.'' w)
                  in (w1, requestPlan x w1)))
      else (updateUI (addToScratchpad ''Vault unlock failed. Please try the passphrase again.'' w), []))"

subsection \<open>One turn (lines 943-1049)\<close>

definition lookupTab :: "(string \<times> nat) list \<Rightarrow> string \<Rightarrow> nat option" where
  \<comment> \<open>\<open>tabs[name]\<close> where the source tests it for truth: a missing name and the id 0 are both false\<close>
  "lookupTab ts name = (case map_of ts name of None \<Rightarrow> None | Some i \<Rightarrow> if i = 0 then None else Some i)"

fun setTab :: "string \<Rightarrow> nat \<Rightarrow> (string \<times> nat) list \<Rightarrow> (string \<times> nat) list" where
  \<comment> \<open>\<open>tabs[name] = id\<close>\<close>
  "setTab name i [] = [(name, i)]"
| "setTab name i ((n, j) # rest) = (if n = name then (name, i) # rest else (n, j) # setTab name i rest)"

definition failureCount :: "AgentState \<Rightarrow> string \<Rightarrow> nat" where
  \<comment> \<open>\<open>websiteFailures[hostname] || 0\<close>\<close>
  "failureCount t hostname = (case websiteFailures t hostname of None \<Rightarrow> 0 | Some n \<Rightarrow> n)"

definition bumpFailures :: "string \<Rightarrow> AgentState \<Rightarrow> AgentState" where
  \<comment> \<open>\<open>websiteFailures[hostname] = (websiteFailures[hostname] || 0) + 1\<close>\<close>
  "bumpFailures hostname t =
     t\<lparr>websiteFailures := (websiteFailures t)(hostname \<mapsto> failureCount t hostname + 1)\<rparr>"

definition skipsTurn :: "TaskStatus \<Rightarrow> bool" where
  \<comment> \<open>the list of line 944\<close>
  "skipsTurn st = (st \<in> {COMPLETED, FAILED, STOPPED, USER_INPUT_PENDING, TEACHING, RESEARCHING,
                          WAITING, AWAITING_CREDENTIAL_NAME, AWAITING_PASSPHRASE})"

definition presentedAnswer :: "bool \<Rightarrow> PresenterDecision \<Rightarrow> string" where
  \<comment> \<open>the summary, and after a terminal action of the Manager also the call to action\<close>
  "presentedAnswer withCall p =
     (if withCall \<and> truthy (call_to_action p)
      then summary p @ [CHR 0x0A, CHR 0x0A] @ the (call_to_action p)
      else summary p)"

definition recordAnswer :: "bool option \<Rightarrow> PresenterDecision \<Rightarrow> AgentState \<Rightarrow> AgentState" where
  \<comment> \<open>lines 953, 1034-1038 and 1182-1186; the first argument is the value assigned to
      \<open>isPartialSuccess\<close>, where the caller assigns one\<close>
  "recordAnswer partial p t =
     (case partial of
        None \<Rightarrow> t\<lparr>finalAnswer := Some (presentedAnswer False p)\<rparr>
      | Some b \<Rightarrow> t\<lparr>finalAnswer := Some (presentedAnswer True p), isPartialSuccess := b\<rparr>)"

definition finishWithPresenter :: "ext \<Rightarrow> bool option \<Rightarrow> string \<Rightarrow> world \<Rightarrow> world" where
  \<comment> \<open>the Presenter's answer becomes the final answer (lines 951-958 and 1180-1191)\<close>
  "finishWithPresenter x partial failText w =
     (case getPresenterDecision x w of
        Some presenterDecision \<Rightarrow>
          saveCompletedTask x
            (updateTaskStatus COMPLETED None (withTask (recordAnswer partial presenterDecision) w))
      | None \<Rightarrow> updateTaskStatus FAILED (Some failText) w)"

definition observedHost :: "ext \<Rightarrow> AgentState \<Rightarrow> string" where
  \<comment> \<open>lines 987-988\<close>
  "observedHost x t = (case activeTabUrl x t of
       Some u \<Rightarrow> if u \<noteq> [] then hostnameOf x u else ''unknown_site''
     | None \<Rightarrow> ''unknown_site'')"

definition observationFailed :: "ext \<Rightarrow> string \<Rightarrow> world \<Rightarrow> world \<times> job list" where
  \<comment> \<open>the \<open>catch\<close> of lines 985-998\<close>
  "observationFailed x message w =
     handleStuckState x False
       (noteWith (\<lambda>t. ''System Alert: Failed to observe '' @ observedHost x t @ ''. Reason: '' @ message
                       @ ''. Failure count for this site is now '' @ showNat (failureCount t (observedHost x t))
                       @ ''. Triggering a replan.'')
          (withTask (\<lambda>t. bumpFailures (observedHost x t) t) w))"

definition decide :: "ext \<Rightarrow> Snapshot \<Rightarrow> world \<Rightarrow> world \<times> job list" where
  \<comment> \<open>lines 1013-1026\<close>
  "decide x pageSnapshot w =
     (let w1 = noteWith (\<lambda>t. ''Observation on tab '' @ quoted (activeTabName t) @ '': The page title is \"''
                              @ snap_title pageSnapshot @ ''\". Snapshot has been truncated for efficiency.'') w
      in case managerCall x of
           Some decision \<Rightarrow> (w1, [EVENT (ACTION_COMPLETE (Some decision))])
         | None \<Rightarrow>
             handleStuckState x False
               (addToScratchpad ''System Alert: The Manager agent failed to produce a decision. Attempting to recover by replanning.'' w1))"

definition think :: "ext \<Rightarrow> world \<Rightarrow> world \<times> job list" where
  \<comment> \<open>lines 972-1026\<close>
  "think x w =
     (let w1 = updateTaskStatus THINKING None (withTask (\<lambda>t. t\<lparr>turn := turn t + 1\<rparr>) w)
      in case observation x of
           Inl message \<Rightarrow> observationFailed x message w1
         | Inr pageSnapshot \<Rightarrow> decide x pageSnapshot w1)"

definition runNextTurn :: "ext \<Rightarrow> world \<Rightarrow> world \<times> job list" where
  "runNextTurn x w = (case currentTask w of None \<Rightarrow> (w, [])
     | Some t \<Rightarrow>
        if skipsTurn (status t) then (w, [])
        else if plan t = []
        then (finishWithPresenter x None
                ''Presenter agent failed to generate a final answer from research data.'' w, [])
        else if tabs t = []
        then (let w1 = addToScratchpad (''Starting task on a new tab with URL: '' @ newTaskUrl x) w
              in case createdTab x of
                   None \<Rightarrow> (updateTaskStatus FAILED
                              (Some ''Could not get a valid browser tab to start the task.'') w1, [])
                 | Some i \<Rightarrow>
                     if i = 0
                     then (updateTaskStatus FAILED
                             (Some ''Could not get a valid browser tab to start the task.'') w1, [])
                     else think x (withTask (\<lambda>t. t\<lparr>tabs := setTab ''main'' i (tabs t)\<rparr>) w1))
        else think x w)"

text \<open>
  \<open>getStartTab\<close> writes its scratchpad line before it creates the tab, so the line is there
  also when no tab comes back. \<open>requestPageSnapshotFromContentScript\<close> returns a snapshot
  or throws, so the test \<open>!pageSnapshot\<close> of line 1002 never holds. \<open>getManagerDecision\<close>
  turns every error of its call into \<open>null\<close>, so the \<open>catch\<close> of lines 1027-1048 sees only
  errors thrown inside the nested dispatch; no handler of this model throws there, and the
  branch has no counterpart.
\<close>

subsection \<open>Acting on the Manager's decision (lines 1051-1231, 2097-2146)\<close>

definition executeAction :: "ext \<Rightarrow> ManagerDecision \<Rightarrow> world \<Rightarrow> bool \<times> world \<times> job list" where
  \<comment> \<open>the reply of the content script decides; a reply to \<open>EXTRACT_TEXT\<close> is dispatched as
      \<open>TEXT_EXTRACTED\<close> from inside this function\<close>
  "executeAction x decision w =
     (case executeReply x of
        Inl errorMessage \<Rightarrow>
          (False,
           addToScratchpad (''Failed to execute action '' @ quoted (actionText decision)
               @ '' on selector '' @ quoted (orUndefined (md_selector decision))
               @ ''. Reason: '' @ errorMessage) w,
           [])
      | Inr reply \<Rightarrow>
          if md_action decision = Some SEARCH_PAGE
          then (True,
                addToScratchpad (''Search results for query \"'' @ orUndefined (md_query decision)
                    @ ''\":'' @ [CHR 0x0A] @ reply) w,
                [])
          else if md_action decision = Some EXTRACT_TEXT
          then (True, w, [EVENT (TEXT_EXTRACTED (Some reply))])
          else (True, w, []))"

definition needsVerification :: "ManagerDecision \<Rightarrow> bool" where
  \<comment> \<open>line 1060\<close>
  "needsVerification decision =
     (md_action decision \<in> {Some GOTO, Some OPEN_TAB}
      \<or> (md_action decision = Some CLICK
          \<and> (case md_selector decision of None \<Rightarrow> False
              | Some sel \<Rightarrow> includesStr (toLowerCase sel) ''a'')))"

definition tabCountName :: "AgentState \<Rightarrow> string" where
  \<comment> \<open>\<open>`tab_${Object.keys(currentTask.tabs).length + 1}`\<close>\<close>
  "tabCountName t = ''tab_'' @ showNat (length (tabs t) + 1)"

definition finishAction :: "ManagerDecision \<Rightarrow> bool \<Rightarrow> job list" where
  \<comment> \<open>lines 1224-1230\<close>
  "finishAction decision success =
     (if md_action decision \<noteq> Some EXTRACT_TEXT
      then (if success then [EVENT (ACTION_COMPLETE None)]
            else [EVENT (ACTION_FAILED (Some decision))])
      else [])"

definition focusTab :: "string \<Rightarrow> nat \<Rightarrow> AgentState \<Rightarrow> AgentState" where
  \<comment> \<open>\<open>currentTask.tabs[name] = id; currentTask.activeTabName = name\<close>\<close>
  "focusTab name i t = t\<lparr>tabs := setTab name i (tabs t), activeTabName := name\<rparr>"

definition detectNewTab :: "ext \<Rightarrow> ManagerDecision \<Rightarrow> bool \<Rightarrow> world \<Rightarrow> world" where
  \<comment> \<open>lines 1203-1217\<close>
  "detectNewTab x decision success w =
     (if success \<and> md_action decision \<in> {Some CLICK, Some SUBMIT}
      then (case openedTab x of
              None \<Rightarrow> w
            | Some newTabId \<Rightarrow>
                if newTabId = 0 then w
                else noteWith (\<lambda>t. ''System: Detected new tab opened by action. Switched focus to ''
                                    @ quoted (activeTabName t) @ ''.'')
                       (withTask (\<lambda>t. focusTab (tabCountName t) newTabId t) w))
      else w)"

definition openTab :: "ext \<Rightarrow> ManagerDecision \<Rightarrow> world \<Rightarrow> world \<times> job list" where
  \<comment> \<open>lines 1094-1106\<close>
  "openTab x decision w =
     (case createdTab x of
        None \<Rightarrow> (addToScratchpad ''Failed to open new tab.'' w, finishAction decision False)
      | Some i \<Rightarrow>
          if i = 0 then (addToScratchpad ''Failed to open new tab.'' w, finishAction decision False)
          else (noteWith (\<lambda>t. ''Action: Opened new tab named '' @ quoted (activeTabName t)
                               @ '' and switched focus.'')
                  (withTask (\<lambda>t. focusTab (if truthy (md_tabName decision) then the (md_tabName decision)
                                            else tabCountName t) i t) w),
                finishAction decision True))"

definition hasTab :: "string \<Rightarrow> world \<Rightarrow> bool" where
  \<comment> \<open>\<open>currentTask.tabs[name]\<close> is a tab id\<close>
  "hasTab name w = (case currentTask w of None \<Rightarrow> False | Some t \<Rightarrow> lookupTab (tabs t) name \<noteq> None)"

definition changeTab :: "ManagerDecision \<Rightarrow> world \<Rightarrow> world \<times> job list" where
  \<comment> \<open>lines 1108-1118\<close>
  "changeTab decision w =
     (if \<not> truthy (md_tabName decision) \<or> \<not> hasTab (the (md_tabName decision)) w
      then (addToScratchpad (''Failed to change tab: Tab name '' @ quoted (orUndefined (md_tabName decision))
               @ '' does not exist.'') w, finishAction decision False)
      else (addToScratchpad (''Action: Changed active tab to '' @ quoted (the (md_tabName decision)) @ ''.'')
              (withTask (\<lambda>t. t\<lparr>activeTabName := the (md_tabName decision)\<rparr>) w),
            finishAction decision True))"

definition targetTabName :: "ManagerDecision \<Rightarrow> world \<Rightarrow> string" where
  \<comment> \<open>\<open>decision.tabName || currentTask.activeTabName\<close>\<close>
  "targetTabName decision w =
     (if truthy (md_tabName decision) then the (md_tabName decision)
      else case currentTask w of None \<Rightarrow> [] | Some t \<Rightarrow> activeTabName t)"

definition actOnPage :: "ext \<Rightarrow> ManagerDecision \<Rightarrow> world \<Rightarrow> world \<times> job list" where
  \<comment> \<open>lines 1120-1143 and what follows the \<open>switch\<close>\<close>
  "actOnPage x decision w =
     (if \<not> hasTab (targetTabName decision w) w
      then (addToScratchpad (''Failed to execute action '' @ quoted (actionText decision)
               @ ''. Reason: Agent tried to act on a tab named '' @ quoted (targetTabName decision w)
               @ '' which does not exist.'') w, finishAction decision False)
      else (let actionToExecute =
                  (if md_action decision = Some READ
                   then decision\<lparr>md_action := Some EXTRACT_TEXT, md_selector := Some ''body''\<rparr>
                   else decision);
                result = executeAction x actionToExecute
                           (withTask (\<lambda>t. t\<lparr>activeTabName := targetTabName decision w\<rparr>) w)
            in (detectNewTab x decision (fst result) (fst (snd result)),
                snd (snd result) @ finishAction decision (fst result))))"

definition waitAction :: "ext \<Rightarrow> ManagerDecision \<Rightarrow> world \<Rightarrow> world \<times> job list" where
  \<comment> \<open>lines 1145-1149\<close>
  "waitAction x decision w =
     (addToScratchpad (''Action: Waiting for ''
         @ showSeconds x (case md_duration decision of None \<Rightarrow> 3000 | Some d \<Rightarrow> if d = 0 then 3000 else d)
         @ '' seconds for page to settle.'') w,
      finishAction decision True)"

definition longWait :: "world \<Rightarrow> world \<times> job list" where
  \<comment> \<open>lines 1150-1163: the timer is set and the handler returns\<close>
  "longWait w =
     (let w1 = addToScratchpad ''Action: Beginning a long wait for a generative process to complete. The agent will resume in 5 minutes.''
                 (updateTaskStatus WAITING None w);
          h = nextTimer w1
      in ((withTask (\<lambda>t. t\<lparr>waitTimeoutId := Some h\<rparr>) w1)\<lparr>timers := timers w1 @ [h], nextTimer := Suc h\<rparr>,
          [WAIT_TIMEOUT h]))"

definition saveCredentialValue :: "ManagerDecision \<Rightarrow> world \<Rightarrow> world \<times> job list" where
  \<comment> \<open>lines 1164-1173\<close>
  "saveCredentialValue decision w =
     (if truthy (md_value decision)
      then (addToScratchpad ''I need to save a credential. Please provide a name for it.''
              (updateTaskStatus AWAITING_CREDENTIAL_NAME None
                 (w\<lparr>pendingCredentialValue := md_value decision\<rparr>)), [])
      else (addToScratchpad ''System Alert: SAVE_CREDENTIAL_VALUE action was called without a value.'' w,
            [EVENT (ACTION_FAILED (Some decision))]))"

definition unknownAction :: "ext \<Rightarrow> Action \<Rightarrow> world \<Rightarrow> world \<times> job list" where
  \<comment> \<open>the \<open>default\<close> of lines 1196-1199\<close>
  "unknownAction x a w =
     handleStuckState x False
       (addToScratchpad (''System Alert: Manager returned an unknown action: '' @ quoted (actionName a)
           @ ''. This is a critical error. The agent will attempt to replan.'') w)"

definition performAction :: "ext \<Rightarrow> ManagerDecision \<Rightarrow> Action \<Rightarrow> world \<Rightarrow> world \<times> job list" where
  \<comment> \<open>the \<open>switch (decision.action)\<close> of lines 1093-1200 and the code after it\<close>
  "performAction x decision a w =
     (case a of
        OPEN_TAB \<Rightarrow> openTab x decision w
      | CHANGE_TAB \<Rightarrow> changeTab decision w
      | CLICK \<Rightarrow> actOnPage x decision w
      | TYPE_TEXT \<Rightarrow> actOnPage x decision w
      | GOTO \<Rightarrow> actOnPage x decision w
      | SUBMIT \<Rightarrow> actOnPage x decision w
      | SEARCH \<Rightarrow> actOnPage x decision w
      | SCROLL_DOWN \<Rightarrow> actOnPage x decision w
      | PRESS_ESCAPE \<Rightarrow> actOnPage x decision w
      | READ \<Rightarrow> actOnPage x decision w
      | EXTRACT_TEXT \<Rightarrow> actOnPage x decision w
      | SEARCH_PAGE \<Rightarrow> actOnPage x decision w
      | WAIT \<Rightarrow> waitAction x decision w
      | LONG_WAIT \<Rightarrow> longWait w
      | SAVE_CREDENTIAL_VALUE \<Rightarrow> saveCredentialValue decision w
      | HELP_REPLAN \<Rightarrow>
          handleStuckState x False
            (addToScratchpad ''Action: Agent has requested help and is triggering a replan.'' w)
      | ANSWER \<Rightarrow>
          (finishWithPresenter x (Some False) ''Presenter agent failed to generate a final answer.'' w, [])
      | PARTIAL_SUCCESS \<Rightarrow>
          (finishWithPresenter x (Some True) ''Presenter agent failed to generate a final answer.'' w, [])
      | FAIL \<Rightarrow> (updateTaskStatus FAILED (md_reason decision) w, [])
      | FULL_PAGE_SEARCH \<Rightarrow> unknownAction x a w
      | OTHER_ACTION s \<Rightarrow> unknownAction x a w)"

definition proceedWithAction :: "ext \<Rightarrow> ManagerDecision \<Rightarrow> Action \<Rightarrow> world \<Rightarrow> world \<times> job list" where
  \<comment> \<open>lines 1076-1082, then the \<open>switch\<close>\<close>
  "proceedWithAction x decision a w =
     performAction x decision a
       (noteWith (\<lambda>t. ''Turn '' @ showNat (turn t) @ '': ''
                       @ (if truthy (md_thought decision) then the (md_thought decision)
                          else ''Warning - The manager decided on an action without providing a thought.''))
          (updateTaskStatus EXECUTING None w))"

definition beginVerification :: "string \<Rightarrow> world \<Rightarrow> world" where
  \<comment> \<open>lines 1063-1064\<close>
  "beginVerification url w = addToScratchpad (''Verifying URL: '' @ url) (updateTaskStatus VERIFYING None w)"

definition blocksNavigation :: "VerifierDecision option \<Rightarrow> bool" where
  \<comment> \<open>\<open>verifierDecision && !verifierDecision.is_safe\<close>\<close>
  "blocksNavigation v = (case v of None \<Rightarrow> False | Some verifierDecision \<Rightarrow> \<not> is_safe verifierDecision)"

definition handleAction :: "ext \<Rightarrow> ManagerDecision \<Rightarrow> world \<Rightarrow> world \<times> job list" where
  "handleAction x decision w =
     (if currentTask w = None then (w, [])
      else case md_action decision of
          None \<Rightarrow>
            handleStuckState x False
              (addToScratchpad ''System Alert: The manager failed to return a valid action. Triggering a replan.'' w)
        | Some a \<Rightarrow>
            if needsVerification decision \<and> truthy (md_url decision)
            then (let url = the (md_url decision);
                      verifierDecision = getVerifierDecision x url
                  in if blocksNavigation verifierDecision
                     then (addToScratchpad (''Security Alert: Navigation to '' @ url @ '' blocked. Reason: ''
                              @ ver_reason (the verifierDecision)) (beginVerification url w),
                           [EVENT (ACTION_FAILED (Some decision))])
                     else proceedWithAction x decision a
                            (addToScratchpad ''Verification successful. Proceeding with action.''
                               (beginVerification url w)))
            else proceedWithAction x decision a w)"

text \<open>
  \<open>md_action = None\<close> is a decision without an action (\<open>!decision.action\<close>); a name
  outside the \<open>switch\<close> is \<open>OTHER_ACTION\<close>. \<open>executeAction\<close> also rewrites a selector of
  the form \<open>[beachdai-id='...']\<close> before it sends the action to the content script; the
  rewritten copy is not used afterwards. The waits (\<open>WAIT\<close>, the 1.5 seconds after a click,
  \<open>waitForTabLoad\<close>) change nothing in the world.
\<close>

subsection \<open>The state machine (lines 305-507)\<close>

definition advance :: "AgentState \<Rightarrow> AgentState" where
  \<comment> \<open>lines 434-438 and 485-489\<close>
  "advance t =
     (let t1 = t\<lparr>lastFailedAction := None, stepFailureCount := 0\<rparr>
      in if int (currentStep t1) < int (length (plan t1)) - 1
         then t1\<lparr>currentStep := currentStep t1 + 1\<rparr> else t1)"

definition completeStep :: "world \<Rightarrow> world \<times> job list" where
  \<comment> \<open>\<open>ACTION_COMPLETE\<close> in \<open>EXECUTING\<close> (lines 433-439) and in \<open>TEACHING\<close> or \<open>WAITING\<close> (lines 484-490)\<close>
  "completeStep w = (withTask advance w, [EVENT RUN_NEXT_TURN])"

definition noteHostFailure :: "ext \<Rightarrow> world \<Rightarrow> world" where
  \<comment> \<open>lines 446-451\<close>
  "noteHostFailure x w = (case currentTask w of None \<Rightarrow> w
     | Some t \<Rightarrow>
        (case activeTabUrl x t of
           None \<Rightarrow> w
         | Some u \<Rightarrow>
             if u = [] then w
             else noteWith (\<lambda>t. ''System Alert: Incrementing failure count for '' @ hostnameOf x u
                                 @ '' to '' @ showNat (failureCount t (hostnameOf x u)) @ ''.'')
                    (withTask (bumpFailures (hostnameOf x u)) w)))"

definition failedEnough :: "world \<Rightarrow> bool" where
  \<comment> \<open>\<open>currentTask.stepFailureCount >= 3\<close>\<close>
  "failedEnough w = (case currentTask w of None \<Rightarrow> False | Some t \<Rightarrow> stepFailureCount t \<ge> 3)"

definition failStep :: "ext \<Rightarrow> ManagerDecision \<Rightarrow> world \<Rightarrow> world \<times> job list" where
  \<comment> \<open>\<open>ACTION_FAILED\<close> with a payload in \<open>EXECUTING\<close>, lines 443-463\<close>
  "failStep x decision w =
     (let w1 = withTask (\<lambda>t. t\<lparr>stepFailureCount := stepFailureCount t + 1, lastFailedAction := Some decision\<rparr>)
                 (noteHostFailure x w)
      in if failedEnough w1
         then handleStuckState x False
                (noteWith (\<lambda>t. ''System Alert: The agent has failed '' @ showNat (stepFailureCount t)
                       @ '' times on this step. The current page may be problematic. Triggering a replan.'') w1)
         else (w1, [EVENT RUN_NEXT_TURN]))"

definition researchComplete :: "ext \<Rightarrow> ResearcherDecision \<Rightarrow> world \<Rightarrow> world \<times> job list" where
  \<comment> \<open>lines 365-402\<close>
  "researchComplete x decision w =
     (let w1 = addToScratchpad (''Research complete. Facts learned: '' @ stringifyFacts x (res_facts decision))
                 (withTask (\<lambda>t. t\<lparr>researchData := res_facts decision,
                                   researcherDecision := Some decision\<rparr>) w)
      in if requires_vault decision \<and> \<not> isVaultUnlocked x
         then (updateTaskStatus AWAITING_PASSPHRASE None
                 (addToScratchpad ''Task requires vault access, but vault is locked. Awaiting passphrase.'' w1), [])
         else if requires_browser decision
         then (updateTaskStatus PLANNING None w1, requestPlan x (updateTaskStatus PLANNING None w1))
         else (case getPresenterDecision x w1 of
                 Some presenterDecision \<Rightarrow>
                   (saveCompletedTask x
                      (updateTaskStatus COMPLETED None
                         (withTask (\<lambda>t. t\<lparr>finalAnswer := Some (summary presenterDecision)\<rparr>) w1)), [])
               | None \<Rightarrow>
                   (saveCompletedTask x
                      (updateTaskStatus COMPLETED None
                         (withTask (\<lambda>t. t\<lparr>finalAnswer :=
                                      Some (join [CHR 0x0A] (map rd_answer (res_facts decision)))\<rparr>) w1)),
                    [])))"

definition planComplete :: "PlannerDecision \<Rightarrow> world \<Rightarrow> world \<times> job list" where
  \<comment> \<open>lines 410-414\<close>
  "planComplete payload w =
     (updateUI (addToScratchpad (''Planner thought: '' @ pl_thought payload)
                  (withTask (\<lambda>t. t\<lparr>plan := pl_plan payload\<rparr>) w)),
      [EVENT RUN_NEXT_TURN])"

definition replanComplete :: "PlannerDecision \<Rightarrow> world \<Rightarrow> world \<times> job list" where
  \<comment> \<open>lines 467-474\<close>
  "replanComplete payload w =
     (updateUI (withTask (\<lambda>t. t\<lparr>stepFailureCount := 0, lastFailedAction := None\<rparr>)
                  (addToScratchpad (''Replanning successful. New Plan: '' @ pl_thought payload)
                     (withTask (\<lambda>t. t\<lparr>plan := pl_plan payload, currentStep := 0\<rparr>) w))),
      [EVENT RUN_NEXT_TURN])"

definition byStatus :: "ext \<Rightarrow> event \<Rightarrow> TaskStatus \<Rightarrow> world \<Rightarrow> world \<times> job list" where
  \<comment> \<open>the \<open>switch (currentTask.status)\<close> of lines 359-502\<close>
  "byStatus x ev st w =
     (case st of
        AWAITING_PASSPHRASE \<Rightarrow> (w, [])
      | AWAITING_CREDENTIAL_NAME \<Rightarrow> (w, [])
      | RESEARCHING \<Rightarrow>
          (case ev of
             RESEARCH_COMPLETE (Some decision) \<Rightarrow> researchComplete x decision w
           | RESEARCH_FAILED \<Rightarrow>
               (updateTaskStatus FAILED (Some ''Researcher failed to gather necessary facts.'') w, [])
           | _ \<Rightarrow> (w, []))
      | PLANNING \<Rightarrow>
          (case ev of
             PLAN_COMPLETE (Some payload) \<Rightarrow> planComplete payload w
           | PLAN_FAILED \<Rightarrow> (updateTaskStatus FAILED (Some ''Planner failed to create a plan.'') w, [])
           | _ \<Rightarrow> (w, []))
      | THINKING \<Rightarrow>
          (case ev of
             ACTION_COMPLETE (Some payload) \<Rightarrow> handleAction x payload w
           | ACTION_FAILED payload \<Rightarrow>
               (updateTaskStatus FAILED (Some ''Manager (Gemini) failed to make a decision.'') w, [])
           | _ \<Rightarrow> (w, []))
      | VERIFYING \<Rightarrow> (w, [])
      | EXECUTING \<Rightarrow>
          (case ev of
             ACTION_COMPLETE payload \<Rightarrow> completeStep w
           | TEXT_EXTRACTED (Some text) \<Rightarrow>
               (addToScratchpad (''Extracted Text: '' @ take 200 text @ ''...'') w, [EVENT RUN_NEXT_TURN])
           | ACTION_FAILED (Some decision) \<Rightarrow> failStep x decision w
           | _ \<Rightarrow> (w, []))
      | REPLANNING \<Rightarrow>
          (case ev of
             REPLAN_COMPLETE (Some payload) \<Rightarrow> replanComplete payload w
           | REPLAN_FAILED \<Rightarrow>
               (updateTaskStatus FAILED
                  (Some ''Replanning failed. The agent is unable to find a new path forward.'') w, [])
           | _ \<Rightarrow> (w, []))
      | TEACHING \<Rightarrow> (case ev of ACTION_COMPLETE payload \<Rightarrow> completeStep w | _ \<Rightarrow> (w, []))
      | WAITING \<Rightarrow> (case ev of ACTION_COMPLETE payload \<Rightarrow> completeStep w | _ \<Rightarrow> (w, []))
      | USER_INPUT_PENDING \<Rightarrow> (w, [])
      | COMPLETED \<Rightarrow> (w, [])
      | FAILED \<Rightarrow> (w, [])
      | STOPPED \<Rightarrow> (w, []))"

definition attemptStrategy :: "string list \<Rightarrow> world \<Rightarrow> world \<times> job list" where
  \<comment> \<open>lines 321-330\<close>
  "attemptStrategy strategy w =
     (if currentTask w = None then (w, [])
      else (updateTaskStatus PLANNING None
              (withTask (\<lambda>t. t\<lparr>isDeliberatePlan := True,
                                initialStrategy := (if truthy (finalAnswer t) then finalAnswer t else None),
                                finalAnswer := None, plan := strategy\<rparr>) w),
            [EVENT (PLAN_COMPLETE (Some \<lparr>pl_thought = ''Executing deliberate strategy.'',
                                          pl_plan = strategy\<rparr>))]))"

definition continueTask :: "ext \<Rightarrow> event \<Rightarrow> world \<Rightarrow> world \<times> job list" where
  \<comment> \<open>lines 357-506: the events of the turn loop\<close>
  "continueTask x ev w = (case currentTask w of None \<Rightarrow> (w, [])
     | Some t \<Rightarrow>
        (let result = byStatus x ev (status t) w
         in if ev = RUN_NEXT_TURN
            then (fst (runNextTurn x (fst result)), snd result @ snd (runNextTurn x (fst result)))
            else result))"

definition agentOrchestrator :: "ext \<Rightarrow> event \<Rightarrow> world \<Rightarrow> world \<times> job list" where
  "agentOrchestrator x ev w =
     (case ev of
        STOP_TASK \<Rightarrow> (handleStopTask x w, [])
      | START_TASK goal \<Rightarrow> handleStartTask x goal w
      | RESET_TASK_SESSION \<Rightarrow> (handleResetTaskSession w, [])
      | ATTEMPT_STRATEGY strategy \<Rightarrow> attemptStrategy strategy w
      | TAKE_OVER \<Rightarrow> (handleTakeOver w, [])
      | GO_AUTONOMOUS \<Rightarrow> handleGoAutonomous x w
      | RECORDED_ACTION payload \<Rightarrow> (handleRecordedAction x payload w, [])
      | START_TEACHING goal \<Rightarrow> (handleStartTeaching x goal w, [])
      | STOP_TEACHING \<Rightarrow> handleStopTeaching w
      | UNLOCK_VAULT passphrase \<Rightarrow> handleUnlockVault x passphrase w
      | DELETE_HISTORICAL_TASK ts \<Rightarrow> (handleDeleteHistoricalTask ts w, [])
      | SAVE_CREDENTIAL name \<Rightarrow> handleSaveCredential x name w
      | RUN_NEXT_TURN \<Rightarrow> continueTask x ev w
      | RESEARCH_COMPLETE payload \<Rightarrow> continueTask x ev w
      | RESEARCH_FAILED \<Rightarrow> continueTask x ev w
      | PLAN_COMPLETE payload \<Rightarrow> continueTask x ev w
      | PLAN_FAILED \<Rightarrow> continueTask x ev w
      | ACTION_COMPLETE payload \<Rightarrow> continueTask x ev w
      | ACTION_FAILED payload \<Rightarrow> continueTask x ev w
      | REPLAN_COMPLETE payload \<Rightarrow> continueTask x ev w
      | REPLAN_FAILED \<Rightarrow> continueTask x ev w
      | TEXT_EXTRACTED payload \<Rightarrow> continueTask x ev w
      | GET_HISTORICAL_TASKS \<Rightarrow> continueTask x ev w
      | HISTORICAL_TASKS_UPDATE \<Rightarrow> continueTask x ev w)"

subsection \<open>The rest of \<open>handleStartTask\<close> and the deliberate flow (lines 726-811, 840-858)\<close>

fun flowName :: "Flow \<Rightarrow> string" where
  "flowName Standard_Flow = ''Standard_Flow''"
| "flowName Deliberate_Flow = ''Deliberate_Flow''"

definition handleStartTask_resume :: "ext \<Rightarrow> string \<Rightarrow> world \<Rightarrow> world \<times> job list" where
  "handleStartTask_resume x goal w =
     (let w1 = addToScratchpad (''Triage decision: '' @ flowName (getTriageDecision x)) w
      in if getTriageDecision x = Deliberate_Flow
         then (addToScratchpad ''Deliberate Flow selected. Generating expert personas...'' w1,
               [DELIBERATE \<lparr>dl_goal = goal, dl_stage = AWAIT_PERSONAS, dl_personas = []\<rparr>])
         else (let w2 = addToScratchpad (''Pre-flight context established. Location: '' @ location x) w1
               in case researcherCall x of
                    Inl message \<Rightarrow> (updateTaskStatus FAILED (Some message) w2, [])
                  | Inr decision \<Rightarrow>
                      (addToScratchpad (''Researcher thought: '' @ res_thought decision) w2,
                       [EVENT (RESEARCH_COMPLETE (Some decision))])))"

definition deliberateFailed :: "string \<Rightarrow> world \<Rightarrow> world \<times> job list" where
  \<comment> \<open>the \<open>catch\<close> of lines 803-810\<close>
  "deliberateFailed message w = (updateTaskStatus FAILED (Some message) w, [])"

definition afterRevisions :: "delib \<Rightarrow> world \<Rightarrow> world \<times> job list" where
  \<comment> \<open>lines 772-786\<close>
  "afterRevisions d w =
     (if currentTask w = None then (w, [])
      else (addToScratchpad ''Generating final consensus...'' (addToScratchpad ''Revised solutions provided.'' w),
            [DELIBERATE (d\<lparr>dl_stage := AWAIT_CONSENSUS\<rparr>)]))"

definition afterTables :: "delib \<Rightarrow> world \<Rightarrow> world \<times> job list" where
  \<comment> \<open>lines 748-768\<close>
  "afterTables d w =
     (if currentTask w = None then (w, [])
      else (let w1 = addToScratchpad ''Experts are reviewing peer tables and providing revised solutions...''
                       (addToScratchpad ''Initial tables created.'' w)
            in if dl_personas d = [] then afterRevisions d w1
               else (w1, [DELIBERATE (d\<lparr>dl_stage := AWAIT_REVISED 0\<rparr>)])))"

definition callToAction :: string where
  "callToAction = ''<p><em>This is a strategic solution. If you wish, the system can autonomously attempt to execute the browser-based steps of this plan.</em></p>''"

definition runDeliberateFlow_resume :: "ext \<Rightarrow> delib \<Rightarrow> world \<Rightarrow> world \<times> job list" where
  "runDeliberateFlow_resume x d w =
     (case dl_stage d of
        AWAIT_PERSONAS \<Rightarrow>
          (case personasCall x of
             Inl message \<Rightarrow> deliberateFailed ''Could not generate or parse dynamic personas.'' w
           | Inr personas \<Rightarrow>
               if currentTask w = None then (w, [])
               else (let w1 = addToScratchpad ''Experts are creating initial solution tables...''
                                (updateTaskStatus THINKING None
                                   (addToScratchpad (''Personas generated: ''
                                       @ join '', '' (map persona_name personas)) w))
                     in if personas = [] then afterTables (d\<lparr>dl_personas := personas\<rparr>) w1
                        else (w1, [DELIBERATE (d\<lparr>dl_stage := AWAIT_TABLE 0, dl_personas := personas\<rparr>)])))
      | AWAIT_TABLE i \<Rightarrow>
          (case debateCall x of
             Some message \<Rightarrow> deliberateFailed message w
           | None \<Rightarrow>
               if i + 1 < length (dl_personas d)
               then (if currentTask w = None then (w, [])
                     else (w, [DELIBERATE (d\<lparr>dl_stage := AWAIT_TABLE (i + 1)\<rparr>)]))
               else afterTables d w)
      | AWAIT_REVISED i \<Rightarrow>
          (case debateCall x of
             Some message \<Rightarrow> deliberateFailed message w
           | None \<Rightarrow>
               if i + 1 < length (dl_personas d)
               then (if currentTask w = None then (w, [])
                     else (w, [DELIBERATE (d\<lparr>dl_stage := AWAIT_REVISED (i + 1)\<rparr>)]))
               else afterRevisions d w)
      | AWAIT_CONSENSUS \<Rightarrow>
          (case consensusCall x of
             Inl message \<Rightarrow> deliberateFailed message w
           | Inr consensusResponse \<Rightarrow>
               if currentTask w = None then (w, [])
               else (saveCompletedTask x
                       (updateTaskStatus COMPLETED None
                          (withTask (\<lambda>t. t\<lparr>finalAnswer := Some (html consensusResponse @ callToAction),
                                            plan := consensus_plan consensusResponse,
                                            isDeliberatePlan := True\<rparr>)
                             (addToScratchpad ''Final consensus generated.'' w))),
                     [])))"

text \<open>
  The tables and revised solutions the personas return go into later prompts only; the
  flow keeps nothing of them in the task, so the model keeps only whether the call threw.
  Each test \<open>if (!currentTask) return\<close> of the flow asks whether some task is set, not
  whether it is the task the flow was started for.
\<close>

subsection \<open>The deferred resume of \<open>LONG_WAIT\<close> (lines 1155-1162)\<close>

definition waitTimeout :: "nat \<Rightarrow> world \<Rightarrow> world \<times> job list" where
  \<comment> \<open>a timer that was cleared, or has fired, does not fire\<close>
  "waitTimeout h w =
     (if h \<notin> set (timers w) then (w, [])
      else (let w1 = w\<lparr>timers := removeAll h (timers w)\<rparr>
            in if statusIs WAITING w1
               then (withTask (\<lambda>t. t\<lparr>waitTimeoutId := None\<rparr>)
                       (addToScratchpad ''Long wait complete. Resuming task.'' w1),
                     [EVENT (ACTION_COMPLETE None)])
               else (w1, [])))"

subsection \<open>Running a job\<close>

definition step :: "ext \<Rightarrow> job \<Rightarrow> world \<Rightarrow> world \<times> job list" where
  "step x j w =
     (case j of
        EVENT ev \<Rightarrow> agentOrchestrator x ev w
      | START_TASK_RESUME goal \<Rightarrow> handleStartTask_resume x goal w
      | DELIBERATE d \<Rightarrow> runDeliberateFlow_resume x d w
      | STOP_TEACHING_SUMMARIZED task \<Rightarrow> handleStopTeaching_summarized x task w
      | STOP_TEACHING_SAVED task \<Rightarrow> handleStopTeaching_saved x task w
      | WAIT_TIMEOUT h \<Rightarrow> waitTimeout h w)"

definition initialWorld :: world where
  \<comment> \<open>a freshly started worker (\<open>currentTask = null\<close>, line 267) over an empty storage\<close>
  "initialWorld =
     \<lparr>currentTask = None, pendingCredentialValue = None, historicalTasks = [], completedTasks = [],
      learnedTools = [], vaultRequests = [], timers = [], nextTimer = 1, nextRef = 0, sent = []\<rparr>"

section \<open>The decision service client: \<open>geminiCall\<close> (lines 1861-2010)\<close>

text \<open>
  \<open>fetch\<close> is answered by a function from the number of requests sent so far to the
  outcome of the next one: an HTTP response (status and body) or a rejection (a network
  error, or the abort of the 90 second timer). \<open>JSON.parse\<close> and the selection of the text
  part of the service's envelope (\<open>result.candidates?.[0]?.content?.parts?.find(...)\<close>) are
  parameters; \<open>None\<close> from the parser is its \<open>SyntaxError\<close>. The function returns what the
  source returns or throws, the number of requests sent, and a log of the prompts sent and
  of the waits between attempts (their deterministic part, \<open>2^attempt * 1000\<close> ms).
\<close>

datatype fetch_result = HttpResponse nat string | FetchRejected string

datatype net_event = Fetch string | Backoff nat

datatype loop_exit =
    GotText string
  | NonRetryable nat string
  | ThrownFromLoop string
  | NoResponse

datatype gemini_error =
    ApiKeyMissing
  | RetriesExhausted string
  | NoSuccessfulResponse "nat option"
  | SyntaxError
  | NoTextPart
  | ExtractedParseFailed string
  | NoJsonFound string
  | SelfHealingFailed string
  | SelfHealingNoJson string

datatype 'j reply = Json 'j | Text string

definition maxRetries :: nat where
  "maxRetries = 5"

definition ok :: "nat \<Rightarrow> bool" where
  \<comment> \<open>\<open>response.ok\<close>\<close>
  "ok st = (200 \<le> st \<and> st \<le> 299)"

function retryLoop :: "(nat \<Rightarrow> fetch_result) \<Rightarrow> string \<Rightarrow> nat \<Rightarrow> nat \<Rightarrow> loop_exit \<times> nat \<times> net_event list" where
  "retryLoop net prompt i attempt =
     (if attempt < maxRetries
      then (case net i of
              HttpResponse st body \<Rightarrow>
                if ok st then (GotText body, i + 1, [Fetch prompt])
                else if st = 503 \<or> st = 429
                then (if attempt + 1 \<ge> maxRetries
                      then (ThrownFromLoop (''Gemini API error: '' @ showNat st @ ''. Retrying...''),
                            i + 1, [Fetch prompt])
                      else (let (e, k, log) = retryLoop net prompt (i + 1) (attempt + 1)
                            in (e, k, Fetch prompt # Backoff (2 ^ (attempt + 1) * 1000) # log)))
                else (NonRetryable st body, i + 1, [Fetch prompt])
            | FetchRejected message \<Rightarrow>
                if attempt + 1 \<ge> maxRetries
                then (ThrownFromLoop message, i + 1, [Fetch prompt])
                else (let (e, k, log) = retryLoop net prompt (i + 1) (attempt + 1)
                      in (e, k, Fetch prompt # Backoff (2 ^ (attempt + 1) * 1000) # log)))
      else (NoResponse, i, []))"
  by pat_completeness auto
termination
  by (relation "measure (\<lambda>(net, prompt, i, attempt). maxRetries - attempt)") auto

fun indexOf :: "string \<Rightarrow> char \<Rightarrow> nat option" where
  "indexOf [] c = None"
| "indexOf (d # ds) c = (if d = c then Some 0 else map_option Suc (indexOf ds c))"

fun lastIndexOf :: "string \<Rightarrow> char \<Rightarrow> nat option" where
  "lastIndexOf [] c = None"
| "lastIndexOf (d # ds) c =
     (case lastIndexOf ds c of Some k \<Rightarrow> Some (Suc k) | None \<Rightarrow> if d = c then Some 0 else None)"

definition substring :: "string \<Rightarrow> nat \<Rightarrow> nat \<Rightarrow> string" where
  \<comment> \<open>\<open>s.substring(a, b)\<close> for \<open>a \<le> b\<close>\<close>
  "substring s a b = take (b - a) (drop a s)"

definition between :: "string \<Rightarrow> char \<Rightarrow> char \<Rightarrow> string option" where
  \<comment> \<open>from the first opening bracket to the last closing one, when it comes later\<close>
  "between s opn cls =
     (case (indexOf s opn, lastIndexOf s cls) of
        (Some a, Some b) \<Rightarrow> if b > a then Some (substring s a (b + 1)) else None
      | _ \<Rightarrow> None)"

definition extractJson :: "string \<Rightarrow> string" where
  \<comment> \<open>lines 1946-1956 and 1983-1993: an object first, else an array, else the empty string\<close>
  "extractJson s =
     (case between s (CHR ''{'') (CHR ''}'') of
        Some js \<Rightarrow> js
      | None \<Rightarrow> (case between s (CHR ''['') (CHR '']'') of Some js \<Rightarrow> js | None \<Rightarrow> []))"

definition sanitize :: "string \<Rightarrow> string" where
  \<comment> \<open>\<open>jsonString.replace(/[\n\r\t]/g, '')\<close>\<close>
  "sanitize s = filter (\<lambda>c. c \<noteq> CHR 0x0A \<and> c \<noteq> CHR 0x0D \<and> c \<noteq> CHR 0x09) s"

definition correctionPrompt :: "string \<Rightarrow> string" where
  "correctionPrompt responseText =
     ''The following text is supposed to be a single, valid JSON object, but it is malformed. Please fix it. Pay special attention to unescaped double quotes within string values. Respond with ONLY the corrected, valid JSON object and nothing else.''
     @ [CHR 0x0A, CHR 0x0A] @ ''Malformed Text:'' @ [CHR 0x0A] @ ''```'' @ [CHR 0x0A]
     @ responseText @ [CHR 0x0A] @ ''```'' @ [CHR 0x0A]"

function geminiCall :: "(string \<Rightarrow> 'j option) \<Rightarrow> ('j \<Rightarrow> string option) \<Rightarrow> bool \<Rightarrow> (nat \<Rightarrow> fetch_result)
    \<Rightarrow> string \<Rightarrow> bool \<Rightarrow> nat \<Rightarrow> (gemini_error + 'j reply) \<times> nat \<times> net_event list" where
  "geminiCall parse textPart hasKey net prompt expectJson i =
     (if \<not> hasKey then (Inl ApiKeyMissing, i, [])
      else case retryLoop net prompt i 0 of
          (ThrownFromLoop message, k, log) \<Rightarrow> (Inl (RetriesExhausted message), k, log)
        | (NonRetryable st body, k, log) \<Rightarrow> (Inl (NoSuccessfulResponse (Some st)), k, log)
        | (NoResponse, k, log) \<Rightarrow> (Inl (NoSuccessfulResponse None), k, log)
        | (GotText responseText, k, log) \<Rightarrow>
            (case parse responseText of
               None \<Rightarrow>
                 if expectJson
                 then (case geminiCall parse textPart hasKey net (correctionPrompt responseText) False k of
                         (Inl e, k', log') \<Rightarrow> (Inl e, k', log @ log')
                       | (Inr (Json v), k', log') \<Rightarrow> (Inr (Json v), k', log @ log')
                       | (Inr (Text correctedResponseText), k', log') \<Rightarrow>
                           (if extractJson correctedResponseText \<noteq> []
                            then (case parse (extractJson correctedResponseText) of
                                    Some v \<Rightarrow> (Inr (Json v), k', log @ log')
                                  | None \<Rightarrow> (Inl (SelfHealingFailed (extractJson correctedResponseText)),
                                             k', log @ log'))
                            else (Inl (SelfHealingNoJson correctedResponseText), k', log @ log')))
                 else (Inl SyntaxError, k, log)
             | Some result \<Rightarrow>
                 (case textPart result of
                    None \<Rightarrow> (Inl NoTextPart, k, log)
                  | Some textContent \<Rightarrow>
                      if expectJson
                      then (case parse textContent of
                              Some v \<Rightarrow> (Inr (Json v), k, log)
                            | None \<Rightarrow>
                                if extractJson textContent \<noteq> []
                                then (case parse (sanitize (extractJson textContent)) of
                                        Some v \<Rightarrow> (Inr (Json v), k, log)
                                      | None \<Rightarrow> (Inl (ExtractedParseFailed (extractJson textContent)), k, log))
                                else (Inl (NoJsonFound textContent), k, log))
                      else (Inr (Text textContent), k, log))))"
  by pat_completeness auto
termination
  by (relation "measure (\<lambda>(parse, textPart, hasKey, net, prompt, expectJson, i). if expectJson then 1 else 0)") auto

text \<open>
  The errors thrown inside the inner \<open>catch\<close> of lines 1943-1969 are made with
  \<open>new Error(...)\<close>. The outer \<open>catch\<close> of line 1974 asks the service for a correction only
  for an \<open>e instanceof SyntaxError\<close>, which is the error of \<open>JSON.parse(responseText)\<close> on
  the envelope alone; every other error is thrown on as it is.
\<close>

section \<open>Notions used to state the properties\<close>

fun runJobs :: "(ext \<times> job) list \<Rightarrow> world \<Rightarrow> world" where
  \<comment> \<open>a schedule: the jobs the event loop runs, in order, each with the answers it gets\<close>
  "runJobs [] w = w"
| "runJobs ((x, j) # rest) w = runJobs rest (fst (step x j w))"

definition startsTask :: "job \<Rightarrow> bool" where
  \<comment> \<open>the two events that put a new task object in place of the current one\<close>
  "startsTask j = (case j of
      EVENT ev \<Rightarrow> (case ev of START_TASK g \<Rightarrow> True | START_TEACHING g \<Rightarrow> True | _ \<Rightarrow> False)
    | _ \<Rightarrow> False)"

definition advances :: "job \<Rightarrow> world \<Rightarrow> bool" where
  \<comment> \<open>a recorded success: \<open>ACTION_COMPLETE\<close> reaching lines 433-439 or 484-490\<close>
  "advances j w = ((\<exists>p. j = EVENT (ACTION_COMPLETE p))
      \<and> (statusIs EXECUTING w \<or> statusIs TEACHING w \<or> statusIs WAITING w))"

definition replans :: "job \<Rightarrow> world \<Rightarrow> bool" where
  \<comment> \<open>a successful replan: \<open>REPLAN_COMPLETE\<close> with a payload reaching lines 467-474\<close>
  "replans j w = ((\<exists>pd. j = EVENT (REPLAN_COMPLETE (Some pd))) \<and> statusIs REPLANNING w)"

definition core :: "AgentState \<Rightarrow> nat \<times> nat \<times> (string \<Rightarrow> nat option)" where
  \<comment> \<open>the identity of a task, its step and its per-host failure tallies\<close>
  "core t = (ref t, currentStep t, websiteFailures t)"

definition countOf :: "(string \<Rightarrow> nat option) \<Rightarrow> string \<Rightarrow> nat" where
  "countOf f h = (case f h of None \<Rightarrow> 0 | Some n \<Rightarrow> n)"

definition quiet :: "(nat \<times> nat \<times> (string \<Rightarrow> nat option)) option
    \<Rightarrow> (nat \<times> nat \<times> (string \<Rightarrow> nat option)) option \<Rightarrow> bool" where
  \<comment> \<open>from the first task to the second: the same object, the same step, no tally lower;
      or no second task\<close>
  "quiet c c' = (case c' of None \<Rightarrow> True
     | Some (r', s', f') \<Rightarrow>
        (case c of None \<Rightarrow> False
         | Some (r, s, f) \<Rightarrow> r' = r \<and> s' = s \<and> (\<forall>h. countOf f h \<le> countOf f' h)))"

abbreviation coreOf :: "world \<Rightarrow> (nat \<times> nat \<times> (string \<Rightarrow> nat option)) option" where
  "coreOf w \<equiv> map_option core (currentTask w)"


definition silentExt :: ext where
  \<comment> \<open>an environment in which every call out of the worker fails or finds nothing\<close>
  "silentExt =
     \<lparr>now = 0, stringifyFacts = (\<lambda>facts. ''[]''), showSeconds = (\<lambda>ms. showNat (ms div 1000)),
      hostnameOf = (\<lambda>u. u), tabUrl = (\<lambda>i. None), activeTab = None,
      newTaskUrl = ''https://www.google.com'', isVaultUnlocked = False, unlockVault = (\<lambda>p. False),
      encryptAndSaveCredential = (\<lambda>n v. Inl ''Vault is locked.''),
      triageCall = Inl ''unavailable'', location = ''Not available'',
      researcherCall = Inl ''unavailable'', plannerCall = (\<lambda>p. None), presenterCall = None,
      managerCall = None, verifierCall = (\<lambda>u. Inl ''unavailable''), teacherCall = None,
      createdTab = None, observation = Inl ''Page observation timed out.'',
      executeReply = Inl ''Element not found'', openedTab = None,
      personasCall = Inl ''unavailable'', debateCall = Some ''unavailable'',
      consensusCall = Inl ''unavailable''\<rparr>"

definition decisionOf :: "Action \<Rightarrow> ManagerDecision" where
  \<comment> \<open>a decision of the Manager with a thought, an action and nothing else\<close>
  "decisionOf a =
     \<lparr>md_thought = Some ''next'', md_action = Some a, md_tabName = None, md_selector = None,
      md_text = None, md_url = None, md_reason = None, md_duration = None, md_query = None,
      md_value = None\<rparr>"

definition taskIn :: "TaskStatus \<Rightarrow> string list \<Rightarrow> AgentState" where
  \<comment> \<open>the task of \<open>handleStartTask\<close> for the goal "book a flight", later in its life: in the
      given status, with the given plan and a start tab\<close>
  "taskIn st steps =
     (newTask 0 0 ''book a flight'' RESEARCHING ''Goal: book a flight'' False)
       \<lparr>status := st, plan := steps, tabs := [(''main'', 7)]\<rparr>"

definition worldWith :: "AgentState \<Rightarrow> world" where
  "worldWith t = initialWorld\<lparr>currentTask := Some t, nextRef := Suc (ref t)\<rparr>"

definition slot :: "string option \<Rightarrow> world \<Rightarrow> world" where
  \<comment> \<open>the same world with another content of the pending credential slot\<close>
  "slot q w = w\<lparr>pendingCredentialValue := q\<rparr>"

definition slotOnly :: "world \<times> job list \<Rightarrow> world \<times> job list \<Rightarrow> bool" where
  \<comment> \<open>two outcomes of a job that differ at most in the pending credential slot\<close>
  "slotOnly r r' = (\<exists>q. r' = (slot q (fst r), snd r))"

definition startAll :: "(ext \<times> string) list \<Rightarrow> (ext \<times> job) list" where
  \<comment> \<open>a sequence of \<open>START_TASK\<close> events, each with its goal\<close>
  "startAll gs = map (\<lambda>(x, g). (x, EVENT (START_TASK g))) gs"

definition archived :: "ext \<Rightarrow> AgentState option \<Rightarrow> HistoricalTask list \<Rightarrow> HistoricalTask list" where
  \<comment> \<open>the history after the goal of a task left in \<open>USER_INPUT_PENDING\<close> has been put in front\<close>
  "archived x task past = (case task of None \<Rightarrow> past
     | Some t \<Rightarrow>
        if status t = USER_INPUT_PENDING \<and> \<not> isBlank (originalGoal t)
           \<and> originalGoal t \<notin> set (map h_goal past)
        then take 10 (\<lparr>h_goal = originalGoal t, h_timestamp = now x\<rparr> # past)
        else past)"

definition resumed :: "AgentState \<Rightarrow> AgentState" where
  \<comment> \<open>a waiting task after its timer has fired and the \<open>ACTION_COMPLETE\<close> of the timer has been handled\<close>
  "resumed t = advance (t\<lparr>scratchpad := scratchpad t @ [''Long wait complete. Resuming task.''],
                          waitTimeoutId := None\<rparr>)"

subsection \<open>A task that books a flight\<close>

definition flightResearch :: ResearcherDecision where
  "flightResearch = \<lparr>res_thought = ''needs a browser'', res_facts = [],
                      requires_browser = True, requires_vault = False\<rparr>"

definition flightPlan :: PlannerDecision where
  "flightPlan = \<lparr>pl_thought = ''two steps'',
                  pl_plan = [''Go to the airline site'', ''Search for flights'']\<rparr>"

definition flightExt :: ext where
  \<comment> \<open>the Researcher asks for a browser, the Planner gives two steps, a tab opens, the page
      is observed, and the Manager decides to wait\<close>
  "flightExt = silentExt
     \<lparr>researcherCall := Inr flightResearch,
      plannerCall := (\<lambda>p. Some flightPlan),
      createdTab := Some 7,
      observation := Inr \<lparr>snap_url = ''https://airline.example'', snap_title = ''Airline''\<rparr>,
      managerCall := Some (decisionOf WAIT)\<rparr>"

definition flightSchedule :: "(ext \<times> job) list" where
  \<comment> \<open>the task runs up to the completion of its first step; every job after the first is
      the one the job before it dispatched\<close>
  "flightSchedule =
     [(flightExt, EVENT (START_TASK ''book a flight'')),
      (flightExt, START_TASK_RESUME ''book a flight''),
      (flightExt, EVENT (RESEARCH_COMPLETE (Some flightResearch))),
      (flightExt, EVENT (PLAN_COMPLETE (Some flightPlan))),
      (flightExt, EVENT RUN_NEXT_TURN),
      (flightExt, EVENT (ACTION_COMPLETE (Some (decisionOf WAIT)))),
      (flightExt, EVENT (ACTION_COMPLETE None))]"

subsection \<open>A flight search that keeps failing on one host\<close>





subsection \<open>A sign-up in which the Manager captures a password\<close>





subsection \<open>Tasks that are replaced, stopped or dismissed\<close>

definition executingWorld :: world where
  "executingWorld = worldWith (taskIn EXECUTING [''Search for flights''])"

definition pendingWorld :: world where
  \<comment> \<open>the user has taken over; a long wait of the task has left a timer behind\<close>
  "pendingWorld = (worldWith ((taskIn USER_INPUT_PENDING [''Search for flights''])\<lparr>waitTimeoutId := Some 1\<rparr>))
     \<lparr>timers := [1], nextTimer := 2\<rparr>"

definition stoppedTask :: "AgentState \<Rightarrow> AgentState" where
  \<comment> \<open>the task as \<open>handleStopTask\<close> broadcasts it last\<close>
  "stoppedTask t = t\<lparr>waitTimeoutId := None, status := STOPPED,
       failureReason := Some ''You have requested to stop the autonomous goal.'',
       scratchpad := scratchpad t @ [''Error: You have requested to stop the autonomous goal.'']\<rparr>"

definition timersWithout :: "nat option \<Rightarrow> nat list \<Rightarrow> nat list" where
  \<comment> \<open>\<open>clearTimeout\<close> of the handle of the task, if it has one\<close>
  "timersWithout h ts = (case h of None \<Rightarrow> ts | Some i \<Rightarrow> removeAll i ts)"

subsection \<open>A task that waits for a video to be generated\<close>

definition videoWorld :: world where
  "videoWorld = worldWith (taskIn THINKING [''Start the generation'', ''Download the video''])"

definition videoSchedule :: "(ext \<times> job) list" where
  \<comment> \<open>the Manager decides on \<open>LONG_WAIT\<close>; five minutes later the timer fires; then the two
      events that follow from it. The environment is one in which a turn, if it ran, would
      observe the page and get a decision.\<close>
  "videoSchedule =
     [(flightExt, EVENT (ACTION_COMPLETE (Some (decisionOf LONG_WAIT)))),
      (flightExt, WAIT_TIMEOUT 1),
      (flightExt, EVENT (ACTION_COMPLETE None)),
      (flightExt, EVENT RUN_NEXT_TURN)]"

subsection \<open>A step counter that is not reset\<close>



section \<open>What the helpers do to the task\<close>

lemma truthy_simps [simp]: "truthy None = False" "truthy (Some s) = (s \<noteq> [])"
  by (simp_all add: truthy_def)

lemma currentTask_withTask: "currentTask (withTask f w) = map_option f (currentTask w)"
  by (simp add: withTask_def split: option.splits)

lemma currentTask_updateUI: "currentTask (updateUI w) = currentTask w"
  by (simp add: updateUI_def split: option.splits)

lemma currentTask_addToScratchpad:
  "currentTask (addToScratchpad l w) = map_option (\<lambda>t. t\<lparr>scratchpad := scratchpad t @ [l]\<rparr>) (currentTask w)"
  by (simp add: addToScratchpad_def currentTask_updateUI currentTask_withTask)

lemma currentTask_noteWith:
  "currentTask (noteWith l w) = map_option (\<lambda>t. t\<lparr>scratchpad := scratchpad t @ [l t]\<rparr>) (currentTask w)"
  by (simp add: noteWith_def currentTask_addToScratchpad split: option.splits)

lemma currentTask_updateTaskStatus:
  "currentTask (updateTaskStatus st r w) =
     (if truthy r
      then map_option (\<lambda>t. t\<lparr>status := st, failureReason := r, scratchpad := scratchpad t @ [''Error: '' @ the r]\<rparr>)
             (currentTask w)
      else map_option (\<lambda>t. t\<lparr>status := st\<rparr>) (currentTask w))"
  by (cases "currentTask w")
     (simp_all add: updateTaskStatus_def currentTask_updateUI currentTask_withTask currentTask_addToScratchpad)

lemma currentTask_saveHistoricalTask: "currentTask (saveHistoricalTask x g w) = currentTask w"
  by (simp add: saveHistoricalTask_def Let_def)

lemma currentTask_saveCompletedTask: "currentTask (saveCompletedTask x w) = currentTask w"
  by (simp add: saveCompletedTask_def currentTask_saveHistoricalTask split: option.splits)

lemma currentTask_saveLearnedTool: "currentTask (saveLearnedTool x g a w) = currentTask w"
  by (simp add: saveLearnedTool_def split: option.splits prod.splits)

lemma currentTask_saveLearnedAction: "currentTask (saveLearnedAction x a w) = currentTask w"
  by (simp add: saveLearnedAction_def Let_def split: option.splits)

lemma currentTask_saveTaskAsTool: "currentTask (saveTaskAsTool x w) = currentTask w"
  by (simp add: saveTaskAsTool_def currentTask_saveLearnedTool split: option.splits)

lemma currentTask_archiveIfPending: "currentTask (archiveIfPending x w) = currentTask w"
  by (simp add: archiveIfPending_def currentTask_saveHistoricalTask split: option.splits)

lemma currentTask_handleDeleteHistoricalTask: "currentTask (handleDeleteHistoricalTask ts w) = currentTask w"
  by (simp add: handleDeleteHistoricalTask_def Let_def)

lemma currentTask_clearWaitTimeout:
  "currentTask (clearWaitTimeout w) = map_option (\<lambda>t. t\<lparr>waitTimeoutId := None\<rparr>) (currentTask w)"
  by (cases "currentTask w") (auto simp: clearWaitTimeout_def currentTask_withTask split: option.splits)

lemmas currentTask_helpers =
  currentTask_withTask currentTask_updateUI currentTask_addToScratchpad currentTask_noteWith
  currentTask_updateTaskStatus currentTask_saveHistoricalTask currentTask_saveCompletedTask
  currentTask_saveLearnedTool currentTask_saveLearnedAction currentTask_saveTaskAsTool
  currentTask_archiveIfPending currentTask_handleDeleteHistoricalTask currentTask_clearWaitTimeout

declare currentTask_helpers [simp] option.map_comp [simp] comp_def [simp]


section \<open>Jobs that keep the task, its step and its tallies\<close>

lemma core_upd [simp]:
  "core (t\<lparr>scratchpad := a\<rparr>) = core t"
  "core (t\<lparr>status := b\<rparr>) = core t"
  "core (t\<lparr>failureReason := c\<rparr>) = core t"
  "core (t\<lparr>isTraining := d\<rparr>) = core t"
  "core (t\<lparr>recordedActions := e\<rparr>) = core t"
  "core (t\<lparr>finalAnswer := f\<rparr>) = core t"
  "core (t\<lparr>isPartialSuccess := g\<rparr>) = core t"
  "core (t\<lparr>turn := h\<rparr>) = core t"
  "core (t\<lparr>tabs := i\<rparr>) = core t"
  "core (t\<lparr>activeTabName := j\<rparr>) = core t"
  "core (t\<lparr>waitTimeoutId := k\<rparr>) = core t"
  "core (t\<lparr>stepFailureCount := l\<rparr>) = core t"
  "core (t\<lparr>lastFailedAction := m\<rparr>) = core t"
  "core (t\<lparr>researchData := n\<rparr>) = core t"
  "core (t\<lparr>researcherDecision := p\<rparr>) = core t"
  "core (t\<lparr>plan := q\<rparr>) = core t"
  "core (t\<lparr>isDeliberatePlan := r\<rparr>) = core t"
  "core (t\<lparr>initialStrategy := s\<rparr>) = core t"
  "core (focusTab nm ti t) = core t"
  "core (recordAnswer pa pd t) = core t"
  by (simp_all add: core_def focusTab_def recordAnswer_def split: option.splits)

lemma core_handleStuckState [simp]: "coreOf (fst (handleStuckState x u w)) = coreOf w"
  by (simp add: handleStuckState_def enterReplanning_def)

lemma core_finishWithPresenter [simp]: "coreOf (finishWithPresenter x p f w) = coreOf w"
  by (simp add: finishWithPresenter_def split: option.splits)

lemma core_executeAction [simp]: "coreOf (fst (snd (executeAction x d w))) = coreOf w"
  by (simp add: executeAction_def split: sum.splits)

lemma core_detectNewTab [simp]: "coreOf (detectNewTab x d s w) = coreOf w"
  by (simp add: detectNewTab_def split: option.splits)

lemma core_performAction [simp]: "coreOf (fst (performAction x d a w)) = coreOf w"
  by (cases a) (simp_all add: performAction_def openTab_def changeTab_def actOnPage_def waitAction_def
       longWait_def saveCredentialValue_def unknownAction_def Let_def split: option.splits)

lemma core_handleAction [simp]: "coreOf (fst (handleAction x d w)) = coreOf w"
  by (simp add: handleAction_def proceedWithAction_def beginVerification_def Let_def split: option.splits)

lemma core_more [simp]:
  "coreOf (handleTakeOver w) = coreOf w"
  "coreOf (fst (handleGoAutonomous x w)) = coreOf w"
  "coreOf (handleRecordedAction x ra w) = coreOf w"
  "coreOf (fst (handleStopTeaching w)) = coreOf w"
  "coreOf (fst (handleStopTeaching_summarized x r w)) = coreOf w"
  "coreOf (fst (handleStopTeaching_saved x r w)) = coreOf w"
  "coreOf (fst (handleSaveCredential x nm w)) = coreOf w"
  "coreOf (fst (handleUnlockVault x pp w)) = coreOf w"
  "coreOf (fst (attemptStrategy sg w)) = coreOf w"
  "coreOf (fst (planComplete pd w)) = coreOf w"
  "coreOf (fst (researchComplete x rd w)) = coreOf w"
  "coreOf (fst (handleStartTask_resume x g w)) = coreOf w"
  "coreOf (fst (waitTimeout h w)) = coreOf w"
  "coreOf (fst (decide x sn w)) = coreOf w"
  by (simp_all add: handleTakeOver_def handleGoAutonomous_def handleRecordedAction_def
        handleStopTeaching_def handleStopTeaching_summarized_def handleStopTeaching_saved_def
        handleSaveCredential_def invalidSaveCredential_def handleUnlockVault_def attemptStrategy_def
        planComplete_def researchComplete_def handleStartTask_resume_def waitTimeout_def decide_def
        Let_def split: option.splits sum.splits)

lemma core_deliberate [simp]: "coreOf (fst (runDeliberateFlow_resume x d w)) = coreOf w"
  by (simp add: runDeliberateFlow_resume_def deliberateFailed_def afterTables_def afterRevisions_def
        Let_def split: delib_stage.splits sum.splits option.splits)

lemma core_stop [simp]:
  "coreOf (handleStopTask x w) = None"
  "coreOf (handleResetTaskSession w) = None"
  by (simp_all add: handleStopTask_def handleResetTaskSession_def)

lemma quiet_refl [simp]: "quiet c c"
  by (simp add: quiet_def split: option.splits prod.splits)

lemma quiet_None [simp]: "quiet c None"
  by (simp add: quiet_def)

lemma quiet_trans: "quiet a b \<Longrightarrow> quiet b c \<Longrightarrow> quiet a c"
  by (auto simp: quiet_def split: option.splits prod.splits intro: order_trans)

lemma quiet_bump [simp]: "quiet (Some (core t)) (Some (core (bumpFailures h t)))"
  by (simp add: quiet_def core_def bumpFailures_def countOf_def failureCount_def)

lemma quiet_map_bump [simp]:
  "quiet (coreOf w) (map_option (\<lambda>t. core (bumpFailures (g t) t)) (currentTask w))"
  by (cases "currentTask w") simp_all

lemma quiet_noteHostFailure [simp]:
  "quiet c (coreOf w) \<Longrightarrow> quiet c (coreOf (noteHostFailure x w))"
proof -
  have "quiet (coreOf w) (coreOf (noteHostFailure x w))"
    by (simp add: noteHostFailure_def split: option.splits)
  then show "quiet c (coreOf w) \<Longrightarrow> ?thesis"
    by (rule quiet_trans [rotated])
qed

lemma quiet_observationFailed [simp]:
  "quiet c (coreOf w) \<Longrightarrow> quiet c (coreOf (fst (observationFailed x m w)))"
proof -
  have "quiet (coreOf w) (coreOf (fst (observationFailed x m w)))"
    by (simp add: observationFailed_def)
  then show "quiet c (coreOf w) \<Longrightarrow> ?thesis"
    by (rule quiet_trans [rotated])
qed

lemma quiet_failStep [simp]: "quiet c (coreOf w) \<Longrightarrow> quiet c (coreOf (fst (failStep x d w)))"
  by (simp add: failStep_def Let_def)

lemma quiet_think [simp]: "quiet c (coreOf w) \<Longrightarrow> quiet c (coreOf (fst (think x w)))"
  by (simp add: think_def Let_def split: sum.splits)

lemma quiet_runNextTurn [simp]: "quiet c (coreOf w) \<Longrightarrow> quiet c (coreOf (fst (runNextTurn x w)))"
  by (cases "currentTask w") (auto simp: runNextTurn_def Let_def split: option.splits)

lemma quiet_byStatus:
  assumes "quiet c (coreOf w)"
    and "\<not> ((\<exists>p. ev = ACTION_COMPLETE p) \<and> st \<in> {EXECUTING, TEACHING, WAITING})"
    and "\<not> ((\<exists>pd. ev = REPLAN_COMPLETE (Some pd)) \<and> st = REPLANNING)"
  shows "quiet c (coreOf (fst (byStatus x ev st w)))"
  using assms
  by (cases st; cases ev; simp add: byStatus_def split: option.splits)

lemma byStatus_RUN_NEXT_TURN [simp]: "byStatus x RUN_NEXT_TURN st w = (w, [])"
  by (cases st; simp add: byStatus_def)

lemma quiet_continueTask:
  assumes "\<not> advances (EVENT ev) w" "\<not> replans (EVENT ev) w"
  shows "quiet (coreOf w) (coreOf (fst (continueTask x ev w)))"
proof (cases "currentTask w")
  case None
  then show ?thesis by (simp add: continueTask_def)
next
  case (Some t)
  have q: "quiet (coreOf w) (coreOf (fst (byStatus x ev (status t) w)))"
    using assms Some
    by (intro quiet_byStatus) (auto simp: advances_def replans_def statusIs_def)
  show ?thesis
  proof (cases "ev = RUN_NEXT_TURN")
    case True
    then show ?thesis using Some by (simp add: continueTask_def)
  next
    case False
    then show ?thesis using Some q by (simp add: continueTask_def Let_def)
  qed
qed

lemma quiet_agentOrchestrator:
  assumes "\<not> startsTask (EVENT ev)" "\<not> advances (EVENT ev) w" "\<not> replans (EVENT ev) w"
  shows "quiet (coreOf w) (coreOf (fst (agentOrchestrator x ev w)))"
  using assms quiet_continueTask [OF assms(2,3), of x]
  by (cases ev) (simp_all add: agentOrchestrator_def startsTask_def)

lemma quiet_step:
  assumes "\<not> startsTask j" "\<not> advances j w" "\<not> replans j w"
  shows "quiet (coreOf w) (coreOf (fst (step x j w)))"
proof (cases j)
  case (EVENT ev)
  then show ?thesis using assms quiet_agentOrchestrator [of ev w x] by (simp add: step_def)
qed (simp_all add: step_def)

section \<open>C3: the step index\<close>

lemma step_advances:
  assumes "advances j w"
  shows "step x j w = completeStep w"
proof -
  from assms obtain p where j: "j = EVENT (ACTION_COMPLETE p)"
    and st: "statusIs EXECUTING w \<or> statusIs TEACHING w \<or> statusIs WAITING w"
    by (auto simp: advances_def)
  from st obtain t where t: "currentTask w = Some t" and "status t \<in> {EXECUTING, TEACHING, WAITING}"
    by (auto simp: statusIs_def split: option.splits)
  then show ?thesis
    using j by (auto simp: step_def agentOrchestrator_def continueTask_def byStatus_def Let_def)
qed

lemma step_replans:
  assumes "replans j w"
  shows "\<exists>pd. j = EVENT (REPLAN_COMPLETE (Some pd)) \<and> step x j w = replanComplete pd w"
proof -
  from assms obtain pd where j: "j = EVENT (REPLAN_COMPLETE (Some pd))" and st: "statusIs REPLANNING w"
    by (auto simp: replans_def)
  from st obtain t where t: "currentTask w = Some t" and "status t = REPLANNING"
    by (auto simp: statusIs_def split: option.splits)
  then show ?thesis
    using j by (auto simp: step_def agentOrchestrator_def continueTask_def byStatus_def Let_def)
qed

lemmas flight_defs = step_def agentOrchestrator_def handleStartTask_def handleStartTask_resume_def
  continueTask_def byStatus_def researchComplete_def planComplete_def runNextTurn_def think_def decide_def
  handleAction_def proceedWithAction_def performAction_def waitAction_def finishAction_def
  completeStep_def advance_def attemptStrategy_def requestPlan_def getPlannerDecision_def
  needsVerification_def skipsTurn_def newTask_def getTriageDecision_def decisionOf_def
  initialWorld_def silentExt_def flightExt_def flightSchedule_def flightResearch_def flightPlan_def Let_def

lemma flight_after_first_step:
  "map_option (\<lambda>t. (status t, currentStep t, plan t)) (currentTask (runJobs flightSchedule initialWorld))
     = Some (EXECUTING, 1, [''Go to the airline site'', ''Search for flights''])"
  by (simp add: flight_defs)

text \<open>
  C3, as it is stated, does not hold. The claim is that for every task and every event
  sequence \<open>currentStep\<close> never exceeds \<open>plan.length - 1\<close>. A task fresh from
  \<open>START_TASK\<close> has the empty plan and step 0, which is above \<open>-1\<close>. And a plan with
  steps can be replaced under a step that has advanced: the flight task completes its first
  step (step index 1 of a plan of two), then \<open>ATTEMPT_STRATEGY\<close> arrives with a plan of one
  step, which lines 321-330 install without touching \<open>currentStep\<close>; the index 1 is then
  above the last index 0.
\<close>

theorem C3_counterexample:
  "map_option (\<lambda>t. int (currentStep t) > int (length (plan t)) - 1)
     (currentTask (runJobs [(silentExt, EVENT (START_TASK ''book a flight''))] initialWorld)) = Some True
   \<and> map_option (\<lambda>t. (currentStep t, plan t))
       (currentTask (runJobs (flightSchedule @ [(flightExt, EVENT (ATTEMPT_STRATEGY [''Call the travel agent'']))])
                      initialWorld)) = Some (1, [''Call the travel agent''])"
  by (simp add: flight_defs)

text \<open>
  C3 (amended). For every task and every job that does not replace the task object, the
  job keeps the same task and \<open>currentStep\<close> after it is: one more than before, if the job is
  a recorded success (\<open>ACTION_COMPLETE\<close> in \<open>EXECUTING\<close>, \<open>WAITING\<close> or \<open>TEACHING\<close>) and the
  step was below the last index of the plan; 0, if the job is a successful replan
  (\<open>REPLAN_COMPLETE\<close> with a plan, in \<open>REPLANNING\<close>); and what it was before in every other
  case, a recorded success at or above the last index included. So after a recorded
  success below the cap the step is at most the last index of the plan.
\<close>

theorem C3_currentStep_moves_on_success_only:
  assumes "currentTask w = Some t" and "currentTask (fst (step x j w)) = Some t'" and "\<not> startsTask j"
  shows "ref t' = ref t
       \<and> currentStep t' =
           (if advances j w
            then (if int (currentStep t) < int (length (plan t)) - 1 then currentStep t + 1 else currentStep t)
            else if replans j w then 0
            else currentStep t)
       \<and> (advances j w \<and> int (currentStep t) < int (length (plan t)) - 1
            \<longrightarrow> int (currentStep t') \<le> int (length (plan t')) - 1)"
proof (cases "advances j w")
  case True
  have "currentTask (fst (step x j w)) = Some (advance t)"
    using assms(1) by (simp add: step_advances [OF True] completeStep_def)
  then have "t' = advance t" using assms(2) by simp
  then show ?thesis using True
    by (auto simp: advance_def Let_def)
next
  case False
  show ?thesis
  proof (cases "replans j w")
    case True
    then obtain pd where "step x j w = replanComplete pd w"
      using step_replans by blast
    then have "currentTask (fst (step x j w))
        = Some (t\<lparr>plan := pl_plan pd, currentStep := 0,
                  scratchpad := scratchpad t @ [''Replanning successful. New Plan: '' @ pl_thought pd],
                  stepFailureCount := 0, lastFailedAction := None\<rparr>)"
      using assms(1) by (simp add: replanComplete_def)
    then show ?thesis using assms(2) True False by auto
  next
    case nr: False
    have "quiet (coreOf w) (coreOf (fst (step x j w)))"
      using quiet_step [OF assms(3) False nr] .
    then show ?thesis using assms(1,2) False nr
      by (simp add: quiet_def core_def)
  qed
qed

theorem C3_witness:
  "currentTask (worldWith (taskIn EXECUTING [''a'', ''b''])) = Some (taskIn EXECUTING [''a'', ''b''])
   \<and> currentTask (fst (step silentExt (EVENT (ACTION_COMPLETE None)) (worldWith (taskIn EXECUTING [''a'', ''b'']))))
       = Some (advance (taskIn EXECUTING [''a'', ''b'']))
   \<and> \<not> startsTask (EVENT (ACTION_COMPLETE None))
   \<and> advances (EVENT (ACTION_COMPLETE None)) (worldWith (taskIn EXECUTING [''a'', ''b'']))
   \<and> currentStep (taskIn EXECUTING [''a'', ''b'']) = 0
   \<and> currentStep (advance (taskIn EXECUTING [''a'', ''b''])) = 1
   \<and> int (currentStep (advance (taskIn EXECUTING [''a'', ''b''])))
         \<le> int (length (plan (advance (taskIn EXECUTING [''a'', ''b''])))) - 1"
proof -
  let ?t = "taskIn EXECUTING [''a'', ''b'']"
  let ?w = "worldWith ?t"
  let ?j = "EVENT (ACTION_COMPLETE None)"
  have h1: "currentTask ?w = Some ?t"
    by (simp add: worldWith_def)
  have adv: "advances ?j ?w"
    by (simp add: advances_def statusIs_def worldWith_def taskIn_def)
  have h2: "currentTask (fst (step silentExt ?j ?w)) = Some (advance ?t)"
    using h1 by (simp add: step_advances [OF adv] completeStep_def)
  have h3: "\<not> startsTask ?j"
    by (simp add: startsTask_def)
  have f: "currentStep ?t = 0" "int (currentStep ?t) < int (length (plan ?t)) - 1"
    by (simp_all add: taskIn_def newTask_def)
  from C3_currentStep_moves_on_success_only [OF h1 h2 h3] adv f
  have "currentStep (advance ?t) = 1 \<and> int (currentStep (advance ?t)) \<le> int (length (plan (advance ?t))) - 1"
    by simp
  with h1 h2 h3 adv f(1) show ?thesis
    by simp
qed

section \<open>C9: the three-strikes rule\<close>








section \<open>C1: the pending credential\<close>

subsection \<open>Requests to the vault\<close>

lemma vaultRequests_helpers [simp]:
  "vaultRequests (withTask f w) = vaultRequests w"
  "vaultRequests (updateUI w) = vaultRequests w"
  "vaultRequests (addToScratchpad l w) = vaultRequests w"
  "vaultRequests (noteWith ln w) = vaultRequests w"
  "vaultRequests (updateTaskStatus st r w) = vaultRequests w"
  "vaultRequests (saveHistoricalTask x g w) = vaultRequests w"
  "vaultRequests (saveCompletedTask x w) = vaultRequests w"
  "vaultRequests (saveLearnedTool x g a w) = vaultRequests w"
  "vaultRequests (saveLearnedAction x ra w) = vaultRequests w"
  "vaultRequests (saveTaskAsTool x w) = vaultRequests w"
  "vaultRequests (archiveIfPending x w) = vaultRequests w"
  "vaultRequests (handleDeleteHistoricalTask ts w) = vaultRequests w"
  "vaultRequests (clearWaitTimeout w) = vaultRequests w"
  by (simp_all add: withTask_def updateUI_def addToScratchpad_def noteWith_def updateTaskStatus_def
        saveHistoricalTask_def saveCompletedTask_def saveLearnedTool_def saveLearnedAction_def
        saveTaskAsTool_def archiveIfPending_def handleDeleteHistoricalTask_def clearWaitTimeout_def
        Let_def split: option.splits prod.splits)

lemma vaultRequests_turn [simp]:
  "vaultRequests (fst (handleStuckState x u w)) = vaultRequests w"
  "vaultRequests (finishWithPresenter x p f w) = vaultRequests w"
  "vaultRequests (fst (snd (executeAction x d w))) = vaultRequests w"
  "vaultRequests (detectNewTab x d s w) = vaultRequests w"
  "vaultRequests (noteHostFailure x w) = vaultRequests w"
  by (simp_all add: handleStuckState_def enterReplanning_def finishWithPresenter_def executeAction_def
        detectNewTab_def noteHostFailure_def split: option.splits sum.splits)

lemma vaultRequests_performAction [simp]: "vaultRequests (fst (performAction x d a w)) = vaultRequests w"
  by (cases a) (simp_all add: performAction_def openTab_def changeTab_def actOnPage_def waitAction_def
       longWait_def saveCredentialValue_def unknownAction_def Let_def split: option.splits)

lemma vaultRequests_handleAction [simp]: "vaultRequests (fst (handleAction x d w)) = vaultRequests w"
  by (simp add: handleAction_def proceedWithAction_def beginVerification_def Let_def split: option.splits)

lemma vaultRequests_think [simp]: "vaultRequests (fst (think x w)) = vaultRequests w"
  by (simp add: think_def observationFailed_def decide_def Let_def split: sum.splits option.splits)

lemma vaultRequests_runNextTurn [simp]: "vaultRequests (fst (runNextTurn x w)) = vaultRequests w"
  by (simp add: runNextTurn_def Let_def split: option.splits)

lemma vaultRequests_handlers [simp]:
  "vaultRequests (handleTakeOver w) = vaultRequests w"
  "vaultRequests (fst (handleGoAutonomous x w)) = vaultRequests w"
  "vaultRequests (handleRecordedAction x ra w) = vaultRequests w"
  "vaultRequests (fst (handleStopTeaching w)) = vaultRequests w"
  "vaultRequests (fst (handleStopTeaching_summarized x r w)) = vaultRequests w"
  "vaultRequests (fst (handleStopTeaching_saved x r w)) = vaultRequests w"
  "vaultRequests (fst (handleUnlockVault x pp w)) = vaultRequests w"
  "vaultRequests (fst (attemptStrategy sg w)) = vaultRequests w"
  "vaultRequests (fst (planComplete pd w)) = vaultRequests w"
  "vaultRequests (fst (replanComplete pd w)) = vaultRequests w"
  "vaultRequests (fst (completeStep w)) = vaultRequests w"
  "vaultRequests (fst (failStep x d w)) = vaultRequests w"
  "vaultRequests (fst (researchComplete x rd w)) = vaultRequests w"
  "vaultRequests (fst (handleStartTask x g w)) = vaultRequests w"
  "vaultRequests (handleStartTeaching x g w) = vaultRequests w"
  "vaultRequests (handleStopTask x w) = vaultRequests w"
  "vaultRequests (handleResetTaskSession w) = vaultRequests w"
  "vaultRequests (fst (handleStartTask_resume x g w)) = vaultRequests w"
  "vaultRequests (fst (waitTimeout h w)) = vaultRequests w"
  by (simp_all add: handleTakeOver_def handleGoAutonomous_def handleRecordedAction_def
        handleStopTeaching_def handleStopTeaching_summarized_def handleStopTeaching_saved_def
        handleUnlockVault_def attemptStrategy_def planComplete_def replanComplete_def completeStep_def
        failStep_def researchComplete_def handleStartTask_def handleStartTeaching_def
        handleStopTask_def handleResetTaskSession_def handleStartTask_resume_def waitTimeout_def
        Let_def split: option.splits sum.splits)

lemma vaultRequests_deliberate [simp]:
  "vaultRequests (fst (runDeliberateFlow_resume x d w)) = vaultRequests w"
  by (simp add: runDeliberateFlow_resume_def deliberateFailed_def afterTables_def afterRevisions_def
        Let_def split: delib_stage.splits sum.splits option.splits)

lemma vaultRequests_byStatus [simp]: "vaultRequests (fst (byStatus x ev st w)) = vaultRequests w"
  by (cases st; cases ev; simp add: byStatus_def split: option.splits)

lemma vaultRequests_continueTask [simp]: "vaultRequests (fst (continueTask x ev w)) = vaultRequests w"
  by (simp add: continueTask_def Let_def split: option.splits)



subsection \<open>What the content of the slot can change\<close>

lemma slot_fields [simp]:
  "currentTask (slot q w) = currentTask w"
  "pendingCredentialValue (slot q w) = q"
  "historicalTasks (slot q w) = historicalTasks w"
  "completedTasks (slot q w) = completedTasks w"
  "learnedTools (slot q w) = learnedTools w"
  "vaultRequests (slot q w) = vaultRequests w"
  "timers (slot q w) = timers w"
  "nextTimer (slot q w) = nextTimer w"
  "nextRef (slot q w) = nextRef w"
  "sent (slot q w) = sent w"
  by (simp_all add: slot_def)

lemma slot_updates [simp]:
  "currentTask_update f1 (slot q w) = slot q (currentTask_update f1 w)"
  "pendingCredentialValue_update f2 (slot q w) = slot (f2 q) w"
  "historicalTasks_update f3 (slot q w) = slot q (historicalTasks_update f3 w)"
  "completedTasks_update f4 (slot q w) = slot q (completedTasks_update f4 w)"
  "learnedTools_update f5 (slot q w) = slot q (learnedTools_update f5 w)"
  "vaultRequests_update f6 (slot q w) = slot q (vaultRequests_update f6 w)"
  "timers_update f7 (slot q w) = slot q (timers_update f7 w)"
  "nextTimer_update f8 (slot q w) = slot q (nextTimer_update f8 w)"
  "nextRef_update f9 (slot q w) = slot q (nextRef_update f9 w)"
  "sent_update f10 (slot q w) = slot q (sent_update f10 w)"
  "slot q (slot q' w) = slot q w"
  by (simp_all add: slot_def)

lemma slot_same: "slot (pendingCredentialValue w) w = w"
  by (simp add: slot_def)

lemma slot_statusIs [simp]: "statusIs st (slot q w) = statusIs st w"
  by (simp add: statusIs_def)

lemma slot_helpers [simp]:
  "withTask f (slot q w) = slot q (withTask f w)"
  "updateUI (slot q w) = slot q (updateUI w)"
  "saveHistoricalTask x g (slot q w) = slot q (saveHistoricalTask x g w)"
  "handleDeleteHistoricalTask ts (slot q w) = slot q (handleDeleteHistoricalTask ts w)"
  "saveLearnedTool x g a (slot q w) = slot q (saveLearnedTool x g a w)"
  "saveLearnedAction x ra (slot q w) = slot q (saveLearnedAction x ra w)"
  by (simp_all add: withTask_def updateUI_def saveHistoricalTask_def handleDeleteHistoricalTask_def
        saveLearnedTool_def saveLearnedAction_def Let_def split: option.splits prod.splits)

lemma slot_helpers2 [simp]:
  "addToScratchpad l (slot q w) = slot q (addToScratchpad l w)"
  "noteWith ln (slot q w) = slot q (noteWith ln w)"
  "updateTaskStatus st r (slot q w) = slot q (updateTaskStatus st r w)"
  "saveCompletedTask x (slot q w) = slot q (saveCompletedTask x w)"
  "saveTaskAsTool x (slot q w) = slot q (saveTaskAsTool x w)"
  "archiveIfPending x (slot q w) = slot q (archiveIfPending x w)"
  "clearWaitTimeout (slot q w) = slot q (clearWaitTimeout w)"
  by (simp_all add: addToScratchpad_def noteWith_def updateTaskStatus_def saveCompletedTask_def
        saveTaskAsTool_def archiveIfPending_def clearWaitTimeout_def split: option.splits)

lemma slot_handleStuckState [simp]:
  "handleStuckState x u (slot q w) = apfst (slot q) (handleStuckState x u w)"
  by (simp add: handleStuckState_def enterReplanning_def requestReplan_def getPlannerDecision_def
       split: option.splits)

lemma slot_finishWithPresenter [simp]:
  "finishWithPresenter x p f (slot q w) = slot q (finishWithPresenter x p f w)"
  by (simp add: finishWithPresenter_def getPresenterDecision_def split: option.splits)

lemma slot_executeAction [simp]:
  "executeAction x d (slot q w) = apsnd (apfst (slot q)) (executeAction x d w)"
  by (simp add: executeAction_def split: sum.splits)

lemma slot_detectNewTab [simp]:
  "detectNewTab x d s (slot q w) = slot q (detectNewTab x d s w)"
  by (auto simp: detectNewTab_def split: option.splits)

lemma slot_act [simp]:
  "openTab x d (slot q w) = apfst (slot q) (openTab x d w)"
  "changeTab d (slot q w) = apfst (slot q) (changeTab d w)"
  "actOnPage x d (slot q w) = apfst (slot q) (actOnPage x d w)"
  "waitAction x d (slot q w) = apfst (slot q) (waitAction x d w)"
  "longWait (slot q w) = apfst (slot q) (longWait w)"
  "unknownAction x a (slot q w) = apfst (slot q) (unknownAction x a w)"
  by (simp_all add: openTab_def changeTab_def actOnPage_def waitAction_def longWait_def unknownAction_def
       hasTab_def targetTabName_def Let_def split: option.splits)

lemma slotOnly_apfst [simp]: "slotOnly r (apfst (slot q) r)"
  by (cases r) (auto simp: slotOnly_def)

lemma slotOnly_pair [simp]:
  "slotOnly (w, js) (slot q w, js)"
  "slotOnly r (slot q (fst r), snd r)"
  by (auto simp: slotOnly_def)

lemma slotOnly_saveCredentialValue [simp]:
  "slotOnly (saveCredentialValue d w) (saveCredentialValue d (slot q w))"
proof (cases "truthy (md_value d)")
  case True
  then have "saveCredentialValue d (slot q w) = saveCredentialValue d w"
    by (simp add: saveCredentialValue_def slot_def)
  moreover have "pendingCredentialValue (fst (saveCredentialValue d w)) = md_value d"
    using True by (simp add: saveCredentialValue_def slot_def addToScratchpad_def updateTaskStatus_def withTask_def updateUI_def split: option.splits)
  ultimately show ?thesis
    unfolding slotOnly_def
    by (metis slot_same prod.collapse)
next
  case False
  then show ?thesis by (simp add: saveCredentialValue_def)
qed

lemma slotOnly_performAction [simp]:
  "slotOnly (performAction x d a w) (performAction x d a (slot q w))"
  by (cases a) (simp_all add: performAction_def)

lemma slotOnly_handleAction [simp]:
  "slotOnly (handleAction x d w) (handleAction x d (slot q w))"
  by (simp add: handleAction_def proceedWithAction_def beginVerification_def Let_def split: option.splits)

lemma slot_think [simp]: "think x (slot q w) = apfst (slot q) (think x w)"
  by (simp add: think_def observationFailed_def decide_def Let_def split: sum.splits option.splits)

lemma slot_runNextTurn [simp]: "runNextTurn x (slot q w) = apfst (slot q) (runNextTurn x w)"
  by (simp add: runNextTurn_def Let_def split: option.splits)

lemma slot_noteHostFailure [simp]: "noteHostFailure x (slot q w) = slot q (noteHostFailure x w)"
  by (simp add: noteHostFailure_def split: option.splits)

lemma slot_failedEnough [simp]: "failedEnough (slot q w) = failedEnough w"
  by (simp add: failedEnough_def)

lemma slot_requestPlan [simp]: "requestPlan x (slot q w) = requestPlan x w"
  by (simp add: requestPlan_def getPlannerDecision_def split: option.splits)

lemma slot_handlers [simp]:
  "handleTakeOver (slot q w) = slot q (handleTakeOver w)"
  "handleGoAutonomous x (slot q w) = apfst (slot q) (handleGoAutonomous x w)"
  "handleRecordedAction x ra (slot q w) = slot q (handleRecordedAction x ra w)"
  "handleStopTeaching (slot q w) = apfst (slot q) (handleStopTeaching w)"
  "handleStopTeaching_summarized x r (slot q w) = apfst (slot q) (handleStopTeaching_summarized x r w)"
  "handleStopTeaching_saved x r (slot q w) = apfst (slot q) (handleStopTeaching_saved x r w)"
  "handleUnlockVault x pp (slot q w) = apfst (slot q) (handleUnlockVault x pp w)"
  "attemptStrategy sg (slot q w) = apfst (slot q) (attemptStrategy sg w)"
  "planComplete pd (slot q w) = apfst (slot q) (planComplete pd w)"
  "replanComplete pd (slot q w) = apfst (slot q) (replanComplete pd w)"
  "completeStep (slot q w) = apfst (slot q) (completeStep w)"
  "failStep x d (slot q w) = apfst (slot q) (failStep x d w)"
  "researchComplete x rd (slot q w) = apfst (slot q) (researchComplete x rd w)"
  "handleStartTask x g (slot q w) = apfst (slot q) (handleStartTask x g w)"
  "handleStartTeaching x g (slot q w) = slot q (handleStartTeaching x g w)"
  "handleStopTask x (slot q w) = slot q (handleStopTask x w)"
  "handleResetTaskSession (slot q w) = slot q (handleResetTaskSession w)"
  "handleStartTask_resume x g (slot q w) = apfst (slot q) (handleStartTask_resume x g w)"
  "waitTimeout h (slot q w) = apfst (slot q) (waitTimeout h w)"
  by (simp_all add: handleTakeOver_def handleGoAutonomous_def handleRecordedAction_def
        handleStopTeaching_def handleStopTeaching_summarized_def handleStopTeaching_saved_def
        handleUnlockVault_def attemptStrategy_def planComplete_def replanComplete_def completeStep_def
        failStep_def researchComplete_def handleStartTask_def handleStartTeaching_def
        handleStopTask_def handleResetTaskSession_def handleStartTask_resume_def waitTimeout_def
        isDemonstrating_def isActive_def hasResearcherDecision_def getPresenterDecision_def
        Let_def split: option.splits sum.splits)

lemma slot_deliberate [simp]:
  "runDeliberateFlow_resume x d (slot q w) = apfst (slot q) (runDeliberateFlow_resume x d w)"
  by (cases "dl_stage d")
     (auto simp: runDeliberateFlow_resume_def deliberateFailed_def afterTables_def afterRevisions_def
        Let_def split: sum.splits option.splits)

lemma slotOnly_byStatus [simp]: "slotOnly (byStatus x ev st w) (byStatus x ev st (slot q w))"
  by (cases st; cases ev; simp add: byStatus_def split: option.splits)

lemma slotOnly_continueTask [simp]: "slotOnly (continueTask x ev w) (continueTask x ev (slot q w))"
  by (simp add: continueTask_def Let_def split: option.splits)



lemma pendingCredentialValue_helpers [simp]:
  "pendingCredentialValue (withTask f w) = pendingCredentialValue w"
  "pendingCredentialValue (updateUI w) = pendingCredentialValue w"
  "pendingCredentialValue (addToScratchpad l w) = pendingCredentialValue w"
  "pendingCredentialValue (noteWith ln w) = pendingCredentialValue w"
  "pendingCredentialValue (updateTaskStatus st r w) = pendingCredentialValue w"
  "pendingCredentialValue (saveHistoricalTask x g w) = pendingCredentialValue w"
  "pendingCredentialValue (archiveIfPending x w) = pendingCredentialValue w"
  "pendingCredentialValue (clearWaitTimeout w) = pendingCredentialValue w"
  by (simp_all add: withTask_def updateUI_def addToScratchpad_def noteWith_def updateTaskStatus_def
        saveHistoricalTask_def archiveIfPending_def clearWaitTimeout_def Let_def
        split: option.splits prod.splits)









section \<open>C2: three failures of a step\<close>

lemma bumpFailures_keeps [simp]:
  "stepFailureCount (bumpFailures h t) = stepFailureCount t"
  "status (bumpFailures h t) = status t"
  by (simp_all add: bumpFailures_def)


lemma requestReplan_cases:
  "(\<exists>pd. requestReplan x u w = [EVENT (REPLAN_COMPLETE (Some pd))]) \<or> requestReplan x u w = [EVENT REPLAN_FAILED]
   \<or> requestReplan x u w = []"
  by (simp add: requestReplan_def split: option.splits)










section \<open>C5 and C6: starting, stopping and resetting\<close>

lemma historicalTasks_helpers [simp]:
  "historicalTasks (withTask f w) = historicalTasks w"
  "historicalTasks (updateUI w) = historicalTasks w"
  "historicalTasks (addToScratchpad l w) = historicalTasks w"
  "historicalTasks (noteWith ln w) = historicalTasks w"
  "historicalTasks (updateTaskStatus st r w) = historicalTasks w"
  "historicalTasks (clearWaitTimeout w) = historicalTasks w"
  by (simp_all add: withTask_def updateUI_def addToScratchpad_def noteWith_def updateTaskStatus_def
        clearWaitTimeout_def split: option.splits)

lemma timers_helpers [simp]:
  "timers (withTask f w) = timers w"
  "timers (updateUI w) = timers w"
  "timers (addToScratchpad l w) = timers w"
  "timers (noteWith ln w) = timers w"
  "timers (updateTaskStatus st r w) = timers w"
  "timers (saveHistoricalTask x g w) = timers w"
  "timers (archiveIfPending x w) = timers w"
  by (simp_all add: withTask_def updateUI_def addToScratchpad_def noteWith_def updateTaskStatus_def
        saveHistoricalTask_def archiveIfPending_def Let_def split: option.splits)

lemma nextRef_helpers [simp]:
  "nextRef (updateUI w) = nextRef w"
  "nextRef (saveHistoricalTask x g w) = nextRef w"
  "nextRef (archiveIfPending x w) = nextRef w"
  by (simp_all add: updateUI_def saveHistoricalTask_def archiveIfPending_def Let_def split: option.splits)

lemma historicalTasks_archiveIfPending:
  "historicalTasks (archiveIfPending x w) = archived x (currentTask w) (historicalTasks w)"
  by (cases "currentTask w")
     (auto simp: archiveIfPending_def archived_def saveHistoricalTask_def Let_def image_iff)

lemma timers_clearWaitTimeout:
  "timers (clearWaitTimeout w) = (case currentTask w of None \<Rightarrow> timers w
     | Some t \<Rightarrow> (case waitTimeoutId t of None \<Rightarrow> timers w | Some h \<Rightarrow> removeAll h (timers w)))"
  by (simp add: clearWaitTimeout_def split: option.splits)

lemma start_once:
  "currentTask (fst (step x (EVENT (START_TASK g)) w))
      = Some (newTask (nextRef w) (now x) g RESEARCHING (''Goal: '' @ g) False)"
  "nextRef (fst (step x (EVENT (START_TASK g)) w)) = Suc (nextRef w)"
  "historicalTasks (fst (step x (EVENT (START_TASK g)) w)) = archived x (currentTask w) (historicalTasks w)"
  "snd (step x (EVENT (START_TASK g)) w) = [START_TASK_RESUME g]"
  by (simp_all add: step_def agentOrchestrator_def handleStartTask_def Let_def
        historicalTasks_archiveIfPending)

lemma start_again:
  assumes "map_option status (currentTask w) = Some RESEARCHING"
  shows "historicalTasks (runJobs (startAll gs) w) = historicalTasks w
       \<and> map_option status (currentTask (runJobs (startAll gs) w)) = Some RESEARCHING
       \<and> map_option originalGoal (currentTask (runJobs (startAll gs) w))
           = (if gs = [] then map_option originalGoal (currentTask w) else Some (snd (last gs)))
       \<and> map_option ref (currentTask (runJobs (startAll gs) w))
           = (if gs = [] then map_option ref (currentTask w) else Some (nextRef w + length gs - 1))
       \<and> nextRef (runJobs (startAll gs) w) = nextRef w + length gs"
  using assms
proof (induction gs arbitrary: w)
  case Nil
  then show ?case by (simp add: startAll_def)
next
  case (Cons a gs)
  obtain x g where a: "a = (x, g)" by (cases a)
  let ?w = "fst (step x (EVENT (START_TASK g)) w)"
  have s: "map_option status (currentTask ?w) = Some RESEARCHING"
    by (simp add: start_once newTask_def)
  have h: "historicalTasks ?w = historicalTasks w"
    using Cons.prems by (auto simp: start_once archived_def split: option.splits)
  have r: "runJobs (startAll (a # gs)) w = runJobs (startAll gs) ?w"
    by (simp add: startAll_def a)
  show ?case
    unfolding r using Cons.IH [OF s] h
    by (simp add: start_once newTask_def a)
qed

lemma start_all:
  assumes "gs \<noteq> []"
  shows "map_option (\<lambda>t. (originalGoal t, status t, ref t)) (currentTask (runJobs (startAll gs) w))
           = Some (snd (last gs), RESEARCHING, nextRef w + length gs - 1)
       \<and> historicalTasks (runJobs (startAll gs) w) = archived (fst (hd gs)) (currentTask w) (historicalTasks w)"
proof -
  from assms obtain x g rest where gs: "gs = (x, g) # rest"
    by (cases gs) auto
  let ?w = "fst (step x (EVENT (START_TASK g)) w)"
  have s: "map_option status (currentTask ?w) = Some RESEARCHING"
    by (simp add: start_once newTask_def)
  have r: "runJobs (startAll gs) w = runJobs (startAll rest) ?w"
    by (simp add: startAll_def gs)
  show ?thesis
    unfolding r using start_again [OF s, of rest]
    by (cases "rest = []") (auto simp: start_once newTask_def gs)
qed

lemmas start_defs = step_def agentOrchestrator_def handleStartTask_def handleStopTask_def
  handleResetTaskSession_def archiveIfPending_def saveHistoricalTask_def clearWaitTimeout_def
  startAll_def archived_def
  executingWorld_def pendingWorld_def stoppedTask_def timersWithout_def silentExt_def worldWith_def taskIn_def newTask_def
  initialWorld_def isBlank_def isSpace_def Let_def

text \<open>
  C5, as it is stated, does not hold in its last part. The claim is that the goal of a
  prior task that was not terminal is archived before the task is replaced. The task
  below is in \<open>EXECUTING\<close>, which is not terminal; \<open>START_TASK\<close> replaces it and the history
  stays empty. The same holds for a task that is replaced right after it was started,
  while it is in \<open>RESEARCHING\<close>. \<open>handleStartTask\<close> archives under one condition only:
  \<open>currentTask.status === 'USER_INPUT_PENDING'\<close> (line 814).
\<close>

theorem C5_counterexample:
  "map_option (\<lambda>t. (originalGoal t, status t)) (currentTask executingWorld) = Some (''book a flight'', EXECUTING)
   \<and> historicalTasks executingWorld = []
   \<and> map_option originalGoal (currentTask (fst (step silentExt (EVENT (START_TASK ''order a pizza'')) executingWorld)))
        = Some ''order a pizza''
   \<and> historicalTasks (fst (step silentExt (EVENT (START_TASK ''order a pizza'')) executingWorld)) = []
   \<and> historicalTasks (runJobs (startAll [(silentExt, ''book a flight''), (silentExt, ''order a pizza'')])
                         initialWorld) = []"
  by (simp add: start_defs)

text \<open>
  C5 (amended). For every state of the worker: \<open>START_TASK\<close> puts a freshly created task
  in place of whatever was there, with the goal of the event, in \<open>RESEARCHING\<close>, under an
  identity no task had before; the history after it is the history before, with the goal
  of the prior task put in front exactly when that task was in \<open>USER_INPUT_PENDING\<close> and
  its goal is not blank and not yet in the history. After any non-empty sequence of
  \<open>START_TASK\<close> events there is one task, that of the last event, in \<open>RESEARCHING\<close>, and only
  the first event of the sequence can have archived anything.
\<close>

theorem C5_start_task_replaces_and_archives_pending:
  "currentTask (fst (step x (EVENT (START_TASK g)) w))
      = Some (newTask (nextRef w) (now x) g RESEARCHING (''Goal: '' @ g) False)
   \<and> nextRef (fst (step x (EVENT (START_TASK g)) w)) = Suc (nextRef w)
   \<and> historicalTasks (fst (step x (EVENT (START_TASK g)) w)) = archived x (currentTask w) (historicalTasks w)
   \<and> (\<forall>gs. gs \<noteq> [] \<longrightarrow>
         map_option (\<lambda>t. (originalGoal t, status t, ref t)) (currentTask (runJobs (startAll gs) w))
           = Some (snd (last gs), RESEARCHING, nextRef w + length gs - 1)
         \<and> historicalTasks (runJobs (startAll gs) w)
             = archived (fst (hd gs)) (currentTask w) (historicalTasks w))"
  using start_all [of _ w] by (simp add: start_once)

theorem C5_witness:
  "[(silentExt, ''order a pizza''), (silentExt, ''rent a car'')] \<noteq> []
   \<and> map_option (\<lambda>t. (originalGoal t, status t, ref t))
        (currentTask (runJobs (startAll [(silentExt, ''order a pizza''), (silentExt, ''rent a car'')]) pendingWorld))
        = Some (''rent a car'', RESEARCHING, 2)
   \<and> historicalTasks (runJobs (startAll [(silentExt, ''order a pizza''), (silentExt, ''rent a car'')]) pendingWorld)
        = [\<lparr>h_goal = ''book a flight'', h_timestamp = 0\<rparr>]"
proof -
  let ?gs = "[(silentExt, ''order a pizza''), (silentExt, ''rent a car'')]"
  have n: "?gs \<noteq> []" by simp
  have a: "archived (fst (hd ?gs)) (currentTask pendingWorld) (historicalTasks pendingWorld)
      = [\<lparr>h_goal = ''book a flight'', h_timestamp = 0\<rparr>]"
    by (simp add: start_defs)
  have r: "nextRef pendingWorld = 1"
    by (simp add: start_defs)
  from C5_start_task_replaces_and_archives_pending [of silentExt "''x''" pendingWorld] n
  have "map_option (\<lambda>t. (originalGoal t, status t, ref t)) (currentTask (runJobs (startAll ?gs) pendingWorld))
           = Some (snd (last ?gs), RESEARCHING, nextRef pendingWorld + length ?gs - 1)
         \<and> historicalTasks (runJobs (startAll ?gs) pendingWorld)
             = archived (fst (hd ?gs)) (currentTask pendingWorld) (historicalTasks pendingWorld)"
    by blast
  then show ?thesis
    unfolding a r by (simp add: numeral_2_eq_2)
qed

section \<open>C6: stopping and resetting\<close>

lemma sent_updateTaskStatus:
  assumes "currentTask w = Some t" and "r \<noteq> []"
  shows "sent (updateTaskStatus st (Some r) w)
     = sent w @ [TASK_UPDATE (t\<lparr>status := st, failureReason := Some r, scratchpad := scratchpad t @ [''Error: '' @ r]\<rparr>),
                 TASK_UPDATE (t\<lparr>status := st, failureReason := Some r, scratchpad := scratchpad t @ [''Error: '' @ r]\<rparr>)]"
  using assms by (simp add: updateTaskStatus_def addToScratchpad_def updateUI_def withTask_def)

lemma sent_clearWaitTimeout [simp]: "sent (clearWaitTimeout w) = sent w"
  by (simp add: clearWaitTimeout_def withTask_def split: option.splits)

lemma stop_task:
  assumes "currentTask w = Some t"
  shows "currentTask (handleStopTask x w) = None"
    and "timers (handleStopTask x w) = timersWithout (waitTimeoutId t) (timers w)"
    and "historicalTasks (handleStopTask x w) = archived x (Some t) (historicalTasks w)"
    and "sent (handleStopTask x w) \<noteq> [] \<and> last (sent (handleStopTask x w)) = TASK_UPDATE (stoppedTask t)"
proof -
  let ?w = "archiveIfPending x (clearWaitTimeout w)"
  have c: "currentTask ?w = Some (t\<lparr>waitTimeoutId := None\<rparr>)"
    using assms by simp
  show "currentTask (handleStopTask x w) = None"
    using assms by (simp add: handleStopTask_def)
  show "timers (handleStopTask x w) = timersWithout (waitTimeoutId t) (timers w)"
    using assms by (simp add: handleStopTask_def timers_clearWaitTimeout timersWithout_def)
  show "historicalTasks (handleStopTask x w) = archived x (Some t) (historicalTasks w)"
    using assms by (simp add: handleStopTask_def historicalTasks_archiveIfPending archived_def)
  show "sent (handleStopTask x w) \<noteq> [] \<and> last (sent (handleStopTask x w)) = TASK_UPDATE (stoppedTask t)"
    using assms by (simp add: handleStopTask_def sent_updateTaskStatus [OF c] stoppedTask_def)
qed

lemma reset_task:
  assumes "currentTask w = Some t"
  shows "currentTask (handleResetTaskSession w) = None"
    and "timers (handleResetTaskSession w) = timersWithout (waitTimeoutId t) (timers w)"
    and "historicalTasks (handleResetTaskSession w) = historicalTasks w"
    and "sent (handleResetTaskSession w) = sent w"
  using assms
  by (simp_all add: handleResetTaskSession_def updateUI_def timers_clearWaitTimeout timersWithout_def)

lemma reset_absent:
  assumes "currentTask w = None"
  shows "handleResetTaskSession w = w" and "handleStopTask x w = w"
  using assms by (simp_all add: handleResetTaskSession_def handleStopTask_def)

lemma cleared_timer_silent:
  assumes "currentTask w = Some t" and "waitTimeoutId t = Some h"
  shows "waitTimeout h (handleStopTask x w) = (handleStopTask x w, [])"
    and "waitTimeout h (handleResetTaskSession w) = (handleResetTaskSession w, [])"
  using stop_task(2) [OF assms(1), of x] reset_task(2) [OF assms(1)] assms(2)
  by (simp_all add: waitTimeout_def timersWithout_def)

text \<open>
  C6, as it is stated, does not hold for \<open>RESET_TASK_SESSION\<close>. The task below was left in
  \<open>USER_INPUT_PENDING\<close>. \<open>STOP_TASK\<close> puts its goal in the history; \<open>RESET_TASK_SESSION\<close>
  leaves the history empty: \<open>handleResetTaskSession\<close> (lines 880-891) clears the timer and
  the task and calls nothing else. So the two handlers differ in more than the
  notification.
\<close>

theorem C6_counterexample:
  "map_option (\<lambda>t. (originalGoal t, status t)) (currentTask pendingWorld) = Some (''book a flight'', USER_INPUT_PENDING)
   \<and> historicalTasks (fst (step silentExt (EVENT STOP_TASK) pendingWorld))
        = [\<lparr>h_goal = ''book a flight'', h_timestamp = 0\<rparr>]
   \<and> historicalTasks (fst (step silentExt (EVENT RESET_TASK_SESSION) pendingWorld)) = []
   \<and> currentTask (fst (step silentExt (EVENT RESET_TASK_SESSION) pendingWorld)) = None"
  by (simp add: start_defs)

text \<open>
  C6 (amended). For every task: \<open>STOP_TASK\<close> and \<open>RESET_TASK_SESSION\<close> both clear the timer
  whose handle the task holds (the resume of its \<open>LONG_WAIT\<close>), so that this timer does
  nothing when its time comes, and leave every other timer as it is; both drop the task and
  dispatch nothing. \<open>STOP_TASK\<close> puts the goal in front of the history if the task was in
  \<open>USER_INPUT_PENDING\<close> and the goal is not blank and not yet in the history, and the last
  message it broadcasts is the task in \<open>STOPPED\<close>; \<open>RESET_TASK_SESSION\<close> leaves the history
  as it is and broadcasts nothing. With no task, each of the two events changes nothing, so
  a second \<open>RESET_TASK_SESSION\<close> after a first changes nothing.
\<close>

theorem C6_stop_archives_and_notifies_reset_does_neither:
  assumes "currentTask w = Some t"
  shows "step x (EVENT STOP_TASK) w = (handleStopTask x w, [])
       \<and> step x (EVENT RESET_TASK_SESSION) w = (handleResetTaskSession w, [])
       \<and> currentTask (handleStopTask x w) = None \<and> currentTask (handleResetTaskSession w) = None
       \<and> timers (handleStopTask x w) = timersWithout (waitTimeoutId t) (timers w)
       \<and> timers (handleResetTaskSession w) = timersWithout (waitTimeoutId t) (timers w)
       \<and> (\<forall>h. waitTimeoutId t = Some h \<longrightarrow>
             step x (WAIT_TIMEOUT h) (handleStopTask x w) = (handleStopTask x w, [])
             \<and> step x (WAIT_TIMEOUT h) (handleResetTaskSession w) = (handleResetTaskSession w, []))
       \<and> historicalTasks (handleStopTask x w) = archived x (Some t) (historicalTasks w)
       \<and> historicalTasks (handleResetTaskSession w) = historicalTasks w
       \<and> sent (handleStopTask x w) \<noteq> []
       \<and> last (sent (handleStopTask x w)) = TASK_UPDATE (stoppedTask t)
       \<and> sent (handleResetTaskSession w) = sent w
       \<and> step x (EVENT RESET_TASK_SESSION) (handleResetTaskSession w) = (handleResetTaskSession w, [])
       \<and> step x (EVENT STOP_TASK) (handleResetTaskSession w) = (handleResetTaskSession w, [])
       \<and> step x (EVENT RESET_TASK_SESSION) (handleStopTask x w) = (handleStopTask x w, [])"
  using stop_task [OF assms] reset_task [OF assms] cleared_timer_silent [OF assms]
  by (simp add: step_def agentOrchestrator_def reset_absent)

theorem C6_witness:
  "currentTask pendingWorld = Some ((taskIn USER_INPUT_PENDING [''Search for flights''])\<lparr>waitTimeoutId := Some 1\<rparr>)
   \<and> timers pendingWorld = [1]
   \<and> timers (fst (step silentExt (EVENT STOP_TASK) pendingWorld)) = []
   \<and> timers (fst (step silentExt (EVENT RESET_TASK_SESSION) pendingWorld)) = []
   \<and> step silentExt (WAIT_TIMEOUT 1) (fst (step silentExt (EVENT STOP_TASK) pendingWorld))
        = (fst (step silentExt (EVENT STOP_TASK) pendingWorld), [])"
proof -
  let ?t = "(taskIn USER_INPUT_PENDING [''Search for flights''])\<lparr>waitTimeoutId := Some 1\<rparr>"
  have c: "currentTask pendingWorld = Some ?t"
    by (simp add: pendingWorld_def worldWith_def)
  have t: "timers pendingWorld = [1]" "waitTimeoutId ?t = Some 1"
    by (simp_all add: pendingWorld_def worldWith_def)
  note main = C6_stop_archives_and_notifies_reset_does_neither [OF c, of silentExt]
  from main t(2) have w: "step silentExt (WAIT_TIMEOUT 1) (handleStopTask silentExt pendingWorld)
      = (handleStopTask silentExt pendingWorld, [])"
    by blast
  from main have s: "fst (step silentExt (EVENT STOP_TASK) pendingWorld) = handleStopTask silentExt pendingWorld"
      "fst (step silentExt (EVENT RESET_TASK_SESSION) pendingWorld) = handleResetTaskSession pendingWorld"
    by simp_all
  from main have "timers (handleStopTask silentExt pendingWorld) = timersWithout (waitTimeoutId ?t) (timers pendingWorld)"
     "timers (handleResetTaskSession pendingWorld) = timersWithout (waitTimeoutId ?t) (timers pendingWorld)"
    by blast+
  then have "timers (handleStopTask silentExt pendingWorld) = []" "timers (handleResetTaskSession pendingWorld) = []"
    by (simp_all add: t timersWithout_def)
  with c t w s show ?thesis
    by simp
qed

end
